theory Spec2Isabelle
  imports Main "HOL-Library.Word"
begin

unbundle bit_operations_syntax

section \<open>Status codes, handles and the boot configuration\<close>

text \<open>
  \<open>zx_status_t\<close> is a 32-bit signed integer; the file only compares statuses with
  \<open>ZX_OK\<close> and returns named constants, so statuses are modelled as \<open>int\<close>.
  The numeric values below are the ones of \<open>zircon/errors.h\<close>, a header the file
  includes.
\<close>

type_synonym zx_status_t = int

definition ZX_OK :: zx_status_t where "ZX_OK = 0"
definition ZX_ERR_NOT_SUPPORTED :: zx_status_t where "ZX_ERR_NOT_SUPPORTED = - 2"
definition ZX_ERR_INVALID_ARGS :: zx_status_t where "ZX_ERR_INVALID_ARGS = - 10"
definition ZX_ERR_BAD_STATE :: zx_status_t where "ZX_ERR_BAD_STATE = - 20"
definition ZX_ERR_TIMED_OUT :: zx_status_t where "ZX_ERR_TIMED_OUT = - 21"
definition ZX_ERR_NOT_FOUND :: zx_status_t where "ZX_ERR_NOT_FOUND = - 25"
definition ZX_ERR_ALREADY_BOUND :: zx_status_t where "ZX_ERR_ALREADY_BOUND = - 27"
definition ZX_ERR_BAD_PATH :: zx_status_t where "ZX_ERR_BAD_PATH = - 50"

text \<open>File descriptors are C \<open>int\<close>s (negative: the call failed); kernel handles are
  opaque numbers.\<close>

type_synonym fd_t = int
type_synonym zx_handle_t = nat

text \<open>The boot configuration is the process environment read through \<open>getenv\<close>:
  a key is either absent (\<open>nullptr\<close>) or has a string value.\<close>

type_synonym environ = "string \<rightharpoonup> string"

section \<open>The bootstrap resolver: \<open>pkgfs_ldsvc_load_blob\<close>\<close>

text \<open>
  What the resolver finds outside the process: the environment, the blob directory
  (\<open>openat\<close> on the pre-opened directory descriptor yields a descriptor or a negative
  number) and \<open>fdio_get_vmo_clone\<close> (a status and the handle it stores).
\<close>

record ldsvc_world =
  lw_getenv :: environ
  lw_openat :: "fd_t \<Rightarrow> string \<Rightarrow> fd_t"
  lw_get_vmo_clone :: "fd_t \<Rightarrow> zx_status_t \<times> zx_handle_t"

text \<open>The calls the resolver makes, in the order it makes them.\<close>

datatype ldsvc_call =
    Getenv string
  | Openat fd_t string
  | GetVmoClone fd_t
  | CloseFd fd_t
  | SetName zx_handle_t string

text \<open>
  \<open>snprintf(buf, size, ...)\<close> stores at most \<open>size - 1\<close> characters and returns the
  length the whole text has.
\<close>

definition snprintf :: "nat \<Rightarrow> string \<Rightarrow> string \<times> int" where
  "snprintf sz text = (take (sz - 1) text, int (length text))"

definition key_prefix :: string where
  "key_prefix = ''zircon.system.pkgfs.file.''"

text \<open>
  The result is the returned status, the handle stored through \<open>vmo\<close> (if any), and
  the calls made.
\<close>

definition pkgfs_ldsvc_load_blob ::
  "ldsvc_world \<Rightarrow> fd_t \<Rightarrow> string \<Rightarrow> string \<Rightarrow> zx_status_t \<times> zx_handle_t option \<times> ldsvc_call list"
where
  "pkgfs_ldsvc_load_blob w fs_blob_fd prefix name =
    (case snprintf 256 (key_prefix @ prefix @ name) of (key, n) \<Rightarrow>
      if n \<ge> 256 then (ZX_ERR_BAD_PATH, None, [])
      else (case lw_getenv w key of
          None \<Rightarrow> (ZX_ERR_NOT_FOUND, None, [Getenv key])
        | Some blob \<Rightarrow>
            (let fd = lw_openat w fs_blob_fd blob in
             if fd < 0 then (ZX_ERR_NOT_FOUND, None, [Getenv key, Openat fs_blob_fd blob])
             else (case lw_get_vmo_clone w fd of (status, vmo) \<Rightarrow>
               if status = ZX_OK
               then (status, Some vmo,
                     [Getenv key, Openat fs_blob_fd blob, GetVmoClone fd, CloseFd fd,
                      SetName vmo key])
               else (status, None,
                     [Getenv key, Openat fs_blob_fd blob, GetVmoClone fd, CloseFd fd])))))"

definition pkgfs_ldsvc_load_object ::
  "ldsvc_world \<Rightarrow> fd_t \<Rightarrow> string \<Rightarrow> zx_status_t \<times> zx_handle_t option \<times> ldsvc_call list"
where
  "pkgfs_ldsvc_load_object w ctx name = pkgfs_ldsvc_load_blob w ctx ''lib/'' name"

text \<open>
  \<open>pkgfs_ldsvc_load_abspath\<close> passes \<open>name + 1\<close>: the first character is dropped
  whatever it is. On the empty string the pointer is past the terminator, which the model
  reports as \<open>None\<close>.
\<close>

definition pkgfs_ldsvc_load_abspath ::
  "ldsvc_world \<Rightarrow> fd_t \<Rightarrow> string \<Rightarrow> (zx_status_t \<times> zx_handle_t option \<times> ldsvc_call list) option"
where
  "pkgfs_ldsvc_load_abspath w ctx name =
    (case name of [] \<Rightarrow> None | c # rest \<Rightarrow> Some (pkgfs_ldsvc_load_blob w ctx [] rest))"

text \<open>The blobs a run of the resolver tried to open.\<close>

fun opened_blobs :: "ldsvc_call list \<Rightarrow> string list" where
  "opened_blobs [] = []"
| "opened_blobs (Openat d b # cs) = b # opened_blobs cs"
| "opened_blobs (c # cs) = opened_blobs cs"

section \<open>Block devices, partition types and disk formats\<close>

text \<open>A partition type GUID is an array of \<open>GPT_GUID_LEN\<close> bytes.\<close>

type_synonym guid = "8 word list"

definition GPT_GUID_LEN :: nat where "GPT_GUID_LEN = 16"

definition GUID_EMPTY_VALUE :: guid where "GUID_EMPTY_VALUE = replicate 16 0"

text \<open>
  The byte values behind \<open>GUID_SYSTEM_VALUE\<close>, \<open>GUID_DATA_VALUE\<close>,
  \<open>GUID_INSTALL_VALUE\<close>, \<open>GUID_BLOB_VALUE\<close> and the EFI type are macros of
  \<open>gpt/gpt.h\<close>; the model takes them as parameters.
\<close>

record gpt_guids =
  GUID_SYSTEM_VALUE :: guid
  GUID_DATA_VALUE :: guid
  GUID_INSTALL_VALUE :: guid
  GUID_BLOB_VALUE :: guid
  GUID_EFI_VALUE :: guid

text \<open>\<open>memcmp\<close> on two byte arrays; the file only tests the result against zero.\<close>

definition memcmp :: "guid \<Rightarrow> guid \<Rightarrow> nat \<Rightarrow> int" where
  "memcmp a b n = (if take n a = take n b then 0 else 1)"

text \<open>
  Modelled from the spec: the classifiers \<open>gpt_is_sys_guid\<close>, \<open>gpt_is_data_guid\<close>,
  \<open>gpt_is_install_guid\<close> and \<open>gpt_is_efi_guid\<close> of the GPT library are not in the
  file. A type identifier of the wrong length has no role; otherwise the role is decided by
  comparing the bytes with the role's identifier.
\<close>

definition gpt_is_sys_guid :: "gpt_guids \<Rightarrow> guid \<Rightarrow> int \<Rightarrow> bool" where
  "gpt_is_sys_guid g guid len =
     (len = int GPT_GUID_LEN \<and> memcmp guid (GUID_SYSTEM_VALUE g) GPT_GUID_LEN = 0)"

definition gpt_is_data_guid :: "gpt_guids \<Rightarrow> guid \<Rightarrow> int \<Rightarrow> bool" where
  "gpt_is_data_guid g guid len =
     (len = int GPT_GUID_LEN \<and> memcmp guid (GUID_DATA_VALUE g) GPT_GUID_LEN = 0)"

definition gpt_is_install_guid :: "gpt_guids \<Rightarrow> guid \<Rightarrow> int \<Rightarrow> bool" where
  "gpt_is_install_guid g guid len =
     (len = int GPT_GUID_LEN \<and> memcmp guid (GUID_INSTALL_VALUE g) GPT_GUID_LEN = 0)"

definition gpt_is_efi_guid :: "gpt_guids \<Rightarrow> guid \<Rightarrow> int \<Rightarrow> bool" where
  "gpt_is_efi_guid g guid len =
     (len = int GPT_GUID_LEN \<and> memcmp guid (GUID_EFI_VALUE g) GPT_GUID_LEN = 0)"

datatype disk_format_t =
    DISK_FORMAT_UNKNOWN
  | DISK_FORMAT_GPT
  | DISK_FORMAT_MBR
  | DISK_FORMAT_MINFS
  | DISK_FORMAT_FAT
  | DISK_FORMAT_BLOBFS
  | DISK_FORMAT_FVM
  | DISK_FORMAT_ZXCRYPT

text \<open>Block-layer flags of \<open>zircon/device/block.h\<close>.\<close>

definition BLOCK_FLAG_REMOVABLE :: "32 word" where "BLOCK_FLAG_REMOVABLE = 0x2"
definition BLOCK_FLAG_BOOTPART :: "32 word" where "BLOCK_FLAG_BOOTPART = 0x4"

text \<open>
  What an open block device answers: \<open>ioctl_block_get_info\<close> (\<open>None\<close>: a negative
  return; otherwise the flags word), \<open>detect_disk_format\<close>, and
  \<open>ioctl_block_get_type_guid\<close> (\<open>None\<close>: an error return, the buffer is left as it
  was; otherwise \<open>GPT_GUID_LEN\<close> is returned and the bytes are stored).
\<close>

record block_device =
  bd_info :: "32 word option"
  bd_format :: disk_format_t
  bd_type_guid :: "guid option"

definition ioctl_block_get_type_guid :: "block_device \<Rightarrow> guid \<Rightarrow> int \<times> guid" where
  "ioctl_block_get_type_guid d buf =
     (case bd_type_guid d of
        Some g \<Rightarrow> (int GPT_GUID_LEN, g)
      | None \<Rightarrow> (ZX_ERR_NOT_SUPPORTED, buf))"

text \<open>
  An automatic array without initialiser holds whatever the stack held. The code looks at
  such a buffer only behind a test that the ioctl returned \<open>GPT_GUID_LEN\<close>, that is
  after the ioctl has filled it, so the model starts it empty.
\<close>

definition uninit_guid :: guid where "uninit_guid = []"

section \<open>Mount options, paths and the calls the handler makes\<close>

text \<open>
  Modelled from the spec: \<open>mount_options_t\<close> and \<open>default_mount_options\<close> belong
  to the fs-management library. The recognised options are read-only, wait-until-ready and
  create-mountpoint; by default a mount is writable, blocks until the filesystem is ready and
  does not create the mount point.
\<close>

record mount_options_t =
  readonly :: bool
  wait_until_ready :: bool
  create_mountpoint :: bool

definition default_mount_options :: mount_options_t where
  "default_mount_options =
     \<lparr>readonly = False, wait_until_ready = True, create_mountpoint = False\<rparr>"

text \<open>
  Modelled from the spec: the fixed mount paths and the block device directory are macros of
  headers outside the file (system, data, install, blob and generic volume root).
\<close>

definition PATH_SYSTEM :: string where "PATH_SYSTEM = ''/system''"
definition PATH_DATA :: string where "PATH_DATA = ''/data''"
definition PATH_INSTALL :: string where "PATH_INSTALL = ''/install''"
definition PATH_BLOB :: string where "PATH_BLOB = ''/blob''"
definition PATH_VOLUME :: string where "PATH_VOLUME = ''/volume''"
definition PATH_DEV_BLOCK :: string where "PATH_DEV_BLOCK = ''/dev/class/block''"

definition FVM_DRIVER_LIB :: string where "FVM_DRIVER_LIB = ''/boot/driver/fvm.so''"
definition GPT_DRIVER_LIB :: string where "GPT_DRIVER_LIB = ''/boot/driver/gpt.so''"
definition MBR_DRIVER_LIB :: string where "MBR_DRIVER_LIB = ''/boot/driver/mbr.so''"
definition BOOTPART_DRIVER_LIB :: string where
  "BOOTPART_DRIVER_LIB = ''/boot/driver/bootpart.so''"
definition ZXCRYPT_DRIVER_LIB :: string where
  "ZXCRYPT_DRIVER_LIB = ''/boot/driver/zxcrypt.so''"

definition FDIO_MAX_FILENAME :: nat where "FDIO_MAX_FILENAME = 255"

definition WATCH_EVENT_ADD_FILE :: int where "WATCH_EVENT_ADD_FILE = 1"

text \<open>Signals of \<open>zircon/types.h\<close> used by the completion wait: bit 24 and
  bit 3.\<close>

definition ZX_USER_SIGNAL_0 :: "32 word" where "ZX_USER_SIGNAL_0 = 0x1000000"
definition ZX_PROCESS_TERMINATED :: "32 word" where "ZX_PROCESS_TERMINATED = 0x8"

text \<open>The three launch callbacks handed to \<open>mount\<close>.\<close>

datatype launcher = launch_blobfs | launch_minfs | launch_fat

text \<open>
  The calls with an effect outside the process, in the order they are made. A call whose
  status the code inspects carries the status it returned. \<open>Mount\<close> is
  \<open>mount(fd, path, format, options, launcher)\<close>, which takes over the descriptor;
  \<open>Install\<close> is the installer callback \<open>g_installer(path, handle)\<close>;
  \<open>WaitOne\<close> is \<open>proc.wait_one(signals, deadline)\<close> with the deadline in seconds
  from now.
\<close>

datatype action =
    DeviceBind fd_t string
  | Close fd_t
  | Mount fd_t string disk_format_t mount_options_t launcher zx_status_t
  | Fsck string disk_format_t zx_status_t
  | FuchsiaStart
  | OpenDir string fd_t
  | LaunchCmdline string fd_t zx_handle_t zx_status_t
  | Launch "string list" zx_handle_t zx_status_t
  | WaitOne zx_handle_t "32 word" nat
  | Install string zx_handle_t zx_status_t
  | OpenAt zx_handle_t string zx_handle_t zx_status_t

section \<open>Process-wide configuration and state\<close>

text \<open>
  What \<open>block_device_watcher\<close> fixes for the lifetime of the process: the
  \<open>netboot\<close> flag and the boot configuration. \<open>filesystem_check\<close> is the value of
  \<open>getenv_bool("zircon.system.filesystem-check", false)\<close>, a helper outside the file.
\<close>

record fshost =
  netboot :: bool
  env :: environ
  filesystem_check :: bool
  guids :: gpt_guids

text \<open>
  The file-scope latches and the function-scope static \<open>fat_counter\<close>. The counter
  is a C \<open>int\<close>: a 32-bit two's-complement word, read through \<open>sint\<close>, whose
  increment wraps from \<open>2147483647\<close> to \<open>-2147483648\<close> as the compiled code
  does.
\<close>

record mount_state =
  data_mounted :: bool
  install_mounted :: bool
  blob_mounted :: bool
  fat_counter :: "32 word"

definition initial_state :: mount_state where
  "initial_state =
     \<lparr>data_mounted = False, install_mounted = False, blob_mounted = False, fat_counter = 0\<rparr>"

text \<open>
  One device-arrival event together with what the rest of the system answers while the
  event is handled: the watcher's event kind and file name, the result of \<open>openat\<close>, the
  device behind the descriptor, \<open>secondary_bootfs_ready()\<close>, the integrity checker's
  child process, the status of the one \<open>mount\<close> call an event can reach, and the
  collaborators of the package-filesystem bootstrap (one field per call site).
\<close>

record arrival =
  ar_event :: int
  ar_name :: string
  ar_openat :: fd_t
  ar_device :: block_device
  ar_secondary_bootfs_ready :: bool
  ar_fsck_launch :: zx_status_t
  ar_fsck_wait :: zx_status_t
  ar_fsck_get_info :: zx_status_t
  ar_fsck_return_code :: int
  ar_mount :: zx_status_t
  ar_open_fs_blob :: fd_t
  ar_pkgfs_channel :: "zx_status_t \<times> zx_handle_t \<times> zx_handle_t"
  ar_pkgfs_launch :: "zx_status_t \<times> zx_handle_t"
  ar_old_channel :: "zx_status_t \<times> zx_handle_t \<times> zx_handle_t"
  ar_old_launch :: "zx_status_t \<times> zx_handle_t"
  ar_wait_one :: "zx_status_t \<times> 32 word"
  ar_installer :: "string \<Rightarrow> zx_handle_t \<Rightarrow> zx_status_t"
  ar_finish_channel :: "zx_status_t \<times> zx_handle_t \<times> zx_handle_t"
  ar_open_at :: zx_status_t

section \<open>The integrity checker: \<open>fshost_fsck\<close>\<close>

text \<open>
  The launch callback of \<open>fshost_fsck\<close>: launch the checker, wait for it to terminate,
  read its process info, look at its return code.
\<close>

definition launch_fsck :: "arrival \<Rightarrow> zx_status_t" where
  "launch_fsck ar =
     (if ar_fsck_launch ar \<noteq> ZX_OK then ar_fsck_launch ar
      else if ar_fsck_wait ar \<noteq> ZX_OK then ar_fsck_wait ar
      else if ar_fsck_get_info ar \<noteq> ZX_OK then ar_fsck_get_info ar
      else if ar_fsck_return_code ar \<noteq> 0 then ZX_ERR_BAD_STATE
      else ZX_OK)"

text \<open>
  Modelled from the spec: \<open>fsck\<close> of the fs-management library is not in the file.
  When run it launches the checker as a child process through the callback it is given and
  reports what the callback reports.
\<close>

definition fsck :: "string \<Rightarrow> disk_format_t \<Rightarrow> (unit \<Rightarrow> zx_status_t) \<Rightarrow> zx_status_t" where
  "fsck device_path df cb = cb ()"

definition fshost_fsck ::
  "fshost \<Rightarrow> arrival \<Rightarrow> string \<Rightarrow> disk_format_t \<Rightarrow> zx_status_t \<times> action list"
where
  "fshost_fsck cfg ar device_path df =
     (if \<not> filesystem_check cfg then (ZX_OK, [])
      else (let status = fsck device_path df (\<lambda>_. launch_fsck ar)
            in (status, [Fsck device_path df status])))"

section \<open>The package-filesystem bootstrap\<close>

definition pkgfs_finish :: "arrival \<Rightarrow> zx_handle_t \<Rightarrow> zx_handle_t \<Rightarrow> action list" where
  "pkgfs_finish ar proc pkgfs_root =
     (case ar_wait_one ar of (status, observed) \<Rightarrow>
       (let wait = WaitOne proc (ZX_USER_SIGNAL_0 OR ZX_PROCESS_TERMINATED) 5 in
        if status \<noteq> ZX_OK then [wait]
        else if observed AND ZX_USER_SIGNAL_0 = 0 then [wait]
        else (let st1 = ar_installer ar ''/pkgfs'' pkgfs_root;
                  inst1 = Install ''/pkgfs'' pkgfs_root st1 in
          if st1 \<noteq> ZX_OK then [wait, inst1]
          else (case ar_finish_channel ar of (cst, h0, h1) \<Rightarrow>
            if cst \<noteq> ZX_OK then [wait, inst1]
            else (let ost = ar_open_at ar;
                      opn = OpenAt pkgfs_root ''system'' h1 ost in
              if ost \<noteq> ZX_OK then [wait, inst1, opn]
              else (let st2 = ar_installer ar ''/system'' h0;
                        inst2 = Install ''/system'' h0 st2 in
                if st2 \<noteq> ZX_OK then [wait, inst1, opn, inst2]
                else [wait, inst1, opn, inst2, FuchsiaStart]))))))"

definition old_launch_blob_init :: "fshost \<Rightarrow> arrival \<Rightarrow> action list" where
  "old_launch_blob_init cfg ar =
     (case env cfg ''zircon.system.blob-init'' of
        None \<Rightarrow> []
      | Some blob_init \<Rightarrow>
          if ar_secondary_bootfs_ready ar then []
          else (case ar_old_channel ar of (cst, handle, pkgfs_root) \<Rightarrow>
            if cst \<noteq> ZX_OK then []
            else (let binary = ''/fs'' @ blob_init;
                      argv = (case env cfg ''zircon.system.blob-init-arg'' of
                                None \<Rightarrow> [binary]
                              | Some blob_init_arg \<Rightarrow> [binary, blob_init_arg])
                  in case ar_old_launch ar of (status, proc) \<Rightarrow>
                    if status \<noteq> ZX_OK then [Launch argv handle status]
                    else Launch argv handle status # pkgfs_finish ar proc pkgfs_root)))"

definition pkgfs_launch :: "fshost \<Rightarrow> arrival \<Rightarrow> bool \<times> action list" where
  "pkgfs_launch cfg ar =
     (case env cfg ''zircon.system.pkgfs.cmd'' of
        None \<Rightarrow> (False, [])
      | Some cmd \<Rightarrow>
          (let fs_blob_fd = ar_open_fs_blob ar in
           if fs_blob_fd < 0 then (False, [OpenDir ''/fs/blob'' fs_blob_fd])
           else (case ar_pkgfs_channel ar of (cst, h0, h1) \<Rightarrow>
             if cst \<noteq> ZX_OK then (False, [OpenDir ''/fs/blob'' fs_blob_fd, Close fs_blob_fd])
             else (case ar_pkgfs_launch ar of (status, proc) \<Rightarrow>
               if status \<noteq> ZX_OK
               then (False, [OpenDir ''/fs/blob'' fs_blob_fd,
                             LaunchCmdline cmd fs_blob_fd h1 status])
               else (True, OpenDir ''/fs/blob'' fs_blob_fd
                           # LaunchCmdline cmd fs_blob_fd h1 status
                           # pkgfs_finish ar proc h0)))))"

definition launch_blob_init :: "fshost \<Rightarrow> arrival \<Rightarrow> action list" where
  "launch_blob_init cfg ar =
     (case pkgfs_launch cfg ar of (launched, tr) \<Rightarrow>
        if \<not> launched then tr @ old_launch_blob_init cfg ar else tr)"

section \<open>The mount orchestrator: \<open>mount_minfs\<close>\<close>

text \<open>
  The result is the returned status, the latches after the call and the calls made.
  \<open>options\<close> is the caller's structure, changed in place before it reaches
  \<open>mount\<close>.
\<close>

definition mount_minfs ::
  "fshost \<Rightarrow> arrival \<Rightarrow> fd_t \<Rightarrow> mount_options_t \<Rightarrow> mount_state
     \<Rightarrow> zx_status_t \<times> mount_state \<times> action list"
where
  "mount_minfs cfg ar fd options s =
     (case ioctl_block_get_type_guid (ar_device ar) uninit_guid of (read_sz, type_guid) \<Rightarrow>
       if read_sz = int GPT_GUID_LEN then
         if gpt_is_sys_guid (guids cfg) type_guid read_sz then
           if ar_secondary_bootfs_ready ar then (ZX_ERR_ALREADY_BOUND, s, [])
           else if env cfg ''zircon.system.blob-init'' \<noteq> None then (ZX_ERR_ALREADY_BOUND, s, [])
           else (let volume = env cfg ''zircon.system.volume'' in
             case (if volume = Some ''any'' then None
                   else if volume = Some ''local'' then
                     (case bd_info (ar_device ar) of
                        None \<Rightarrow> Some ZX_ERR_BAD_STATE
                      | Some flags \<Rightarrow>
                          if flags AND BLOCK_FLAG_REMOVABLE \<noteq> 0 then Some ZX_ERR_BAD_STATE
                          else None)
                   else Some ZX_ERR_BAD_STATE) of
               Some rejected \<Rightarrow> (rejected, s, [])
             | None \<Rightarrow>
                 (let options1 = options\<lparr>readonly := (env cfg ''zircon.system.writable'' = None),
                                         wait_until_ready := True\<rparr>;
                      st = ar_mount ar;
                      m = Mount fd (''/fs'' @ PATH_SYSTEM) DISK_FORMAT_MINFS options1
                            launch_minfs st
                  in if st \<noteq> ZX_OK then (st, s, [m]) else (st, s, [m, FuchsiaStart])))
         else if gpt_is_data_guid (guids cfg) type_guid read_sz then
           if data_mounted s then (ZX_ERR_ALREADY_BOUND, s, [])
           else (let s1 = s\<lparr>data_mounted := True\<rparr>;
                     options1 = options\<lparr>wait_until_ready := True\<rparr>;
                     st = ar_mount ar
                 in (st, s1, [Mount fd (''/fs'' @ PATH_DATA) DISK_FORMAT_MINFS options1
                                launch_minfs st]))
         else if gpt_is_install_guid (guids cfg) type_guid read_sz then
           if install_mounted s then (ZX_ERR_ALREADY_BOUND, s, [])
           else (let s1 = s\<lparr>install_mounted := True\<rparr>;
                     options1 = options\<lparr>readonly := True, wait_until_ready := True\<rparr>;
                     st = ar_mount ar
                 in (st, s1, [Mount fd (''/fs'' @ PATH_INSTALL) DISK_FORMAT_MINFS options1
                                launch_minfs st]))
         else (ZX_ERR_INVALID_ARGS, s, [])
       else (ZX_ERR_INVALID_ARGS, s, []))"

section \<open>The device-added handler: \<open>block_device_added\<close>\<close>

text \<open>\<open>printf\<close>'s \<open>%d\<close>: decimal digits, with a minus sign for a negative number.\<close>

fun digits10 :: "nat \<Rightarrow> string" where
  "digits10 n =
     (if n < 10 then [char_of (48 + n)]
      else digits10 (n div 10) @ [char_of (48 + n mod 10)])"

declare digits10.simps [simp del]

definition printf_d :: "int \<Rightarrow> string" where
  "printf_d i = (if i < 0 then CHR ''-'' # digits10 (nat (- i)) else digits10 (nat i))"

text \<open>The three filesystem cases of the second \<open>switch (df)\<close>, one definition each.\<close>

definition added_blobfs ::
  "fshost \<Rightarrow> arrival \<Rightarrow> fd_t \<Rightarrow> string \<Rightarrow> guid \<Rightarrow> mount_state
     \<Rightarrow> zx_status_t \<times> mount_state \<times> action list"
where
  "added_blobfs cfg ar fd device_path guid s =
     (if memcmp guid (GUID_BLOB_VALUE (guids cfg)) GPT_GUID_LEN \<noteq> 0
      then (ZX_OK, s, [Close fd])
      else (case fshost_fsck cfg ar device_path DISK_FORMAT_BLOBFS of (fst_, ftr) \<Rightarrow>
        if fst_ \<noteq> ZX_OK then (ZX_OK, s, ftr @ [Close fd])
        else if \<not> blob_mounted s then
          (let options = default_mount_options;
               status = ar_mount ar;
               m = Mount fd (''/fs'' @ PATH_BLOB) DISK_FORMAT_BLOBFS options launch_blobfs status
           in if status \<noteq> ZX_OK then (ZX_OK, s, ftr @ [m])
              else (ZX_OK, s\<lparr>blob_mounted := True\<rparr>, ftr @ [m] @ launch_blob_init cfg ar))
        else (ZX_OK, s, ftr)))"

definition added_minfs ::
  "fshost \<Rightarrow> arrival \<Rightarrow> fd_t \<Rightarrow> string \<Rightarrow> mount_state
     \<Rightarrow> zx_status_t \<times> mount_state \<times> action list"
where
  "added_minfs cfg ar fd device_path s =
     (case fshost_fsck cfg ar device_path DISK_FORMAT_MINFS of (fst_, ftr) \<Rightarrow>
        if fst_ \<noteq> ZX_OK then (ZX_OK, s, ftr @ [Close fd])
        else (let options = default_mount_options\<lparr>wait_until_ready := False\<rparr> in
          case mount_minfs cfg ar fd options s of (st, s1, tr) \<Rightarrow> (ZX_OK, s1, ftr @ tr)))"

definition added_fat ::
  "fshost \<Rightarrow> arrival \<Rightarrow> fd_t \<Rightarrow> disk_format_t \<Rightarrow> mount_state
     \<Rightarrow> zx_status_t \<times> mount_state \<times> action list"
where
  "added_fat cfg ar fd df s =
     (case ioctl_block_get_type_guid (ar_device ar) uninit_guid of (r, guid) \<Rightarrow>
        if gpt_is_efi_guid (guids cfg) guid r then (ZX_OK, s, [Close fd])
        else (let options = default_mount_options\<lparr>create_mountpoint := True\<rparr>;
                  mountpath = fst (snprintf (FDIO_MAX_FILENAME + 64)
                                (''/fs'' @ PATH_VOLUME @ ''/fat-''
                                 @ printf_d (sint (fat_counter s))));
                  s1 = s\<lparr>fat_counter := fat_counter s + 1\<rparr>;
                  options1 = options\<lparr>wait_until_ready := False\<rparr>
              in (ZX_OK, s1, [Mount fd mountpath df options1 launch_fat (ar_mount ar)])))"

definition block_device_added ::
  "fshost \<Rightarrow> arrival \<Rightarrow> mount_state \<Rightarrow> zx_status_t \<times> mount_state \<times> action list"
where
  "block_device_added cfg ar s =
     (if ar_event ar \<noteq> WATCH_EVENT_ADD_FILE then (ZX_OK, s, [])
      else (let device_path = PATH_DEV_BLOCK @ ''/'' @ ar_name ar;
                fd = ar_openat ar in
        if fd < 0 then (ZX_OK, s, [])
        else if (case bd_info (ar_device ar) of
                   None \<Rightarrow> False
                 | Some flags \<Rightarrow> flags AND BLOCK_FLAG_BOOTPART \<noteq> 0)
        then (ZX_OK, s, [DeviceBind fd BOOTPART_DRIVER_LIB, Close fd])
        else (let df = bd_format (ar_device ar) in
          case df of
            DISK_FORMAT_GPT \<Rightarrow> (ZX_OK, s, [DeviceBind fd GPT_DRIVER_LIB, Close fd])
          | DISK_FORMAT_FVM \<Rightarrow> (ZX_OK, s, [DeviceBind fd FVM_DRIVER_LIB, Close fd])
          | DISK_FORMAT_MBR \<Rightarrow> (ZX_OK, s, [DeviceBind fd MBR_DRIVER_LIB, Close fd])
          | DISK_FORMAT_ZXCRYPT \<Rightarrow> (ZX_OK, s, [DeviceBind fd ZXCRYPT_DRIVER_LIB, Close fd])
          | _ \<Rightarrow>
            (let guid = snd (ioctl_block_get_type_guid (ar_device ar) GUID_EMPTY_VALUE) in
             if netboot cfg then
               (if memcmp guid (GUID_INSTALL_VALUE (guids cfg)) GPT_GUID_LEN = 0
                then (let options = default_mount_options\<lparr>wait_until_ready := False\<rparr> in
                  case mount_minfs cfg ar fd options s of (st, s1, tr) \<Rightarrow> (ZX_OK, s1, tr))
                else (ZX_OK, s, [Close fd]))
             else (case df of
                 DISK_FORMAT_BLOBFS \<Rightarrow> added_blobfs cfg ar fd device_path guid s
               | DISK_FORMAT_MINFS \<Rightarrow> added_minfs cfg ar fd device_path s
               | DISK_FORMAT_FAT \<Rightarrow> added_fat cfg ar fd df s
               | _ \<Rightarrow> (ZX_OK, s, [Close fd]))))))"

section \<open>The watcher loop\<close>

text \<open>
  Modelled from the spec: \<open>fdio_watch_directory\<close> is the external event source. It
  delivers the events one at a time, in arrival order, and a callback status other than
  \<open>ZX_OK\<close> ends the loop.
\<close>

fun fdio_watch_directory ::
  "fshost \<Rightarrow> arrival list \<Rightarrow> mount_state \<Rightarrow> mount_state \<times> action list"
where
  "fdio_watch_directory cfg [] s = (s, [])"
| "fdio_watch_directory cfg (ar # ars) s =
     (case block_device_added cfg ar s of (st, s1, tr) \<Rightarrow>
        if st \<noteq> ZX_OK then (s1, tr)
        else (case fdio_watch_directory cfg ars s1 of (s2, tr2) \<Rightarrow> (s2, tr @ tr2)))"

text \<open>
  \<open>block_device_watcher\<close> records the job, the \<open>netboot\<close> flag and the installer
  (the configuration above), opens the block device directory and, if that worked, watches
  it; then it closes the descriptor. The latches start clear and the counter at zero, as
  their initialisers say.
\<close>

definition block_device_watcher ::
  "fshost \<Rightarrow> fd_t \<Rightarrow> arrival list \<Rightarrow> mount_state \<times> action list"
where
  "block_device_watcher cfg dirfd ars =
     (case (if 0 \<le> dirfd then fdio_watch_directory cfg ars initial_state
            else (initial_state, [])) of
        (s, tr) \<Rightarrow> (s, tr @ [Close dirfd]))"

section \<open>Observations on a sequence of calls\<close>

text \<open>
  Tests on single calls and counts over a sequence of calls, in which the properties below
  are stated.
\<close>

fun is_mount :: "action \<Rightarrow> bool" where
  "is_mount (Mount fd p df opts l st) = True"
| "is_mount a = False"

fun is_failed_fsck :: "action \<Rightarrow> bool" where
  "is_failed_fsck (Fsck p df st) = (st \<noteq> ZX_OK)"
| "is_failed_fsck a = False"

fun is_fsck :: "action \<Rightarrow> bool" where
  "is_fsck (Fsck p df st) = True"
| "is_fsck a = False"

text \<open>The boot-partition test and the type GUID as the handler reads them: the flag test
  needs a successful \<open>ioctl_block_get_info\<close>, and the handler's buffer starts as
  \<open>GUID_EMPTY_VALUE\<close>.\<close>

definition is_bootpart :: "block_device \<Rightarrow> bool" where
  "is_bootpart d =
     (case bd_info d of None \<Rightarrow> False | Some flags \<Rightarrow> flags AND BLOCK_FLAG_BOOTPART \<noteq> 0)"

definition handler_guid :: "block_device \<Rightarrow> guid" where
  "handler_guid d = snd (ioctl_block_get_type_guid d GUID_EMPTY_VALUE)"

fun is_legacy_launch :: "action \<Rightarrow> bool" where
  "is_legacy_launch (Launch argv h st) = True"
| "is_legacy_launch a = False"

fun is_wait :: "action \<Rightarrow> bool" where
  "is_wait (WaitOne proc signals secs) = True"
| "is_wait a = False"

fun is_container :: "disk_format_t \<Rightarrow> bool" where
  "is_container DISK_FORMAT_GPT = True"
| "is_container DISK_FORMAT_FVM = True"
| "is_container DISK_FORMAT_MBR = True"
| "is_container DISK_FORMAT_ZXCRYPT = True"
| "is_container df = False"

fun is_bind :: "action \<Rightarrow> bool" where
  "is_bind (DeviceBind fd lib) = True"
| "is_bind a = False"

text \<open>A descriptor is released by closing it or by handing it to \<open>mount\<close>.\<close>

fun releases_fd :: "fd_t \<Rightarrow> action \<Rightarrow> bool" where
  "releases_fd fd (Close f) = (f = fd)"
| "releases_fd fd (Mount f p df opts l st) = (f = fd)"
| "releases_fd fd a = False"

fun is_mount_at :: "string \<Rightarrow> action \<Rightarrow> bool" where
  "is_mount_at p (Mount fd q df opts l st) = (q = p)"
| "is_mount_at p a = False"

definition mount_attempts :: "string \<Rightarrow> action list \<Rightarrow> nat" where
  "mount_attempts p tr = length (filter (is_mount_at p) tr)"

text \<open>
  A blob device the handler takes to the blob mount: an added file that opens, outside
  network-boot mode, not a boot partition, detected as blobfs, carrying the blob type GUID,
  and passing the integrity check (or the check is off).
\<close>

definition valid_blob_device :: "fshost \<Rightarrow> arrival \<Rightarrow> bool" where
  "valid_blob_device cfg ar =
     (ar_event ar = WATCH_EVENT_ADD_FILE \<and> 0 \<le> ar_openat ar \<and> \<not> netboot cfg
      \<and> \<not> is_bootpart (ar_device ar)
      \<and> bd_format (ar_device ar) = DISK_FORMAT_BLOBFS
      \<and> memcmp (handler_guid (ar_device ar)) (GUID_BLOB_VALUE (guids cfg)) GPT_GUID_LEN = 0
      \<and> fst (fshost_fsck cfg ar (PATH_DEV_BLOCK @ ''/'' @ ar_name ar) DISK_FORMAT_BLOBFS)
          = ZX_OK)"

definition blob_mount_call :: "arrival \<Rightarrow> action" where
  "blob_mount_call ar =
     Mount (ar_openat ar) (''/fs'' @ PATH_BLOB) DISK_FORMAT_BLOBFS default_mount_options
       launch_blobfs (ar_mount ar)"

fun is_ok_mount_at :: "string \<Rightarrow> action \<Rightarrow> bool" where
  "is_ok_mount_at p (Mount fd q df opts l st) = (q = p \<and> st = ZX_OK)"
| "is_ok_mount_at p a = False"

text \<open>The mount point of the next FAT volume, as \<open>added_fat\<close> builds it.\<close>

definition fat_mountpath :: "int \<Rightarrow> string" where
  "fat_mountpath k =
     fst (snprintf (FDIO_MAX_FILENAME + 64) (''/fs'' @ PATH_VOLUME @ ''/fat-'' @ printf_d k))"

fun fat_mount_paths :: "action list \<Rightarrow> string list" where
  "fat_mount_paths [] = []"
| "fat_mount_paths (Mount fd p df opts l st # tr) =
     (if l = launch_fat then p # fat_mount_paths tr else fat_mount_paths tr)"
| "fat_mount_paths (a # tr) = fat_mount_paths tr"

definition has_efi_guid :: "fshost \<Rightarrow> block_device \<Rightarrow> bool" where
  "has_efi_guid cfg d =
     (case bd_type_guid d of
        None \<Rightarrow> False
      | Some g \<Rightarrow> memcmp g (GUID_EFI_VALUE (guids cfg)) GPT_GUID_LEN = 0)"

text \<open>Reading a decimal numeral back, used to show that \<open>%d\<close> loses nothing.\<close>

definition undigits :: "string \<Rightarrow> nat" where
  "undigits cs = foldl (\<lambda>a c. 10 * a + (of_char c - 48)) 0 cs"

section \<open>Concrete inputs\<close>

text \<open>
  The boot configurations, devices and events at which the theorems below are evaluated.
\<close>

definition manifest_env :: environ where
  "manifest_env = [''zircon.system.pkgfs.file.bin/pkgsvr'' \<mapsto> ''b10b'',
                   ''zircon.system.pkgfs.file.lib/ld.so.1'' \<mapsto> ''1d50'']"

definition blob_world :: ldsvc_world where
  "blob_world = \<lparr>lw_getenv = manifest_env,
                 lw_openat = (\<lambda>d b. if b = ''b10b'' then 4 else - 1),
                 lw_get_vmo_clone = (\<lambda>f. (ZX_OK, 9))\<rparr>"

definition no_manifest_world :: ldsvc_world where
  "no_manifest_world = \<lparr>lw_getenv = Map.empty,
                 lw_openat = (\<lambda>d b. 4),
                 lw_get_vmo_clone = (\<lambda>f. (ZX_OK, 9))\<rparr>"

definition long_name :: string where "long_name = replicate 231 CHR ''a''"

definition example_guids :: gpt_guids where
  "example_guids =
     \<lparr>GUID_SYSTEM_VALUE = replicate 16 1, GUID_DATA_VALUE = replicate 16 2,
      GUID_INSTALL_VALUE = replicate 16 3, GUID_BLOB_VALUE = replicate 16 4,
      GUID_EFI_VALUE = replicate 16 5\<rparr>"

definition checking_host :: fshost where
  "checking_host =
     \<lparr>netboot = False, env = Map.empty, filesystem_check = True, guids = example_guids\<rparr>"

definition plain_device :: block_device where
  "plain_device = \<lparr>bd_info = Some 0, bd_format = DISK_FORMAT_MINFS, bd_type_guid = None\<rparr>"

definition calm_arrival :: arrival where
  "calm_arrival =
     \<lparr>ar_event = WATCH_EVENT_ADD_FILE, ar_name = ''000'', ar_openat = 3,
      ar_device = plain_device, ar_secondary_bootfs_ready = False,
      ar_fsck_launch = ZX_OK, ar_fsck_wait = ZX_OK, ar_fsck_get_info = ZX_OK,
      ar_fsck_return_code = 0, ar_mount = ZX_OK, ar_open_fs_blob = 6,
      ar_pkgfs_channel = (ZX_OK, 10, 11), ar_pkgfs_launch = (ZX_OK, 12),
      ar_old_channel = (ZX_OK, 13, 14), ar_old_launch = (ZX_OK, 15),
      ar_wait_one = (ZX_OK, ZX_USER_SIGNAL_0), ar_installer = (\<lambda>p h. ZX_OK),
      ar_finish_channel = (ZX_OK, 20, 21), ar_open_at = ZX_OK\<rparr>"

definition corrupt_data_arrival :: arrival where
  "corrupt_data_arrival =
     calm_arrival\<lparr>ar_device := plain_device\<lparr>bd_type_guid := Some (replicate 16 2)\<rparr>,
                  ar_fsck_return_code := 1\<rparr>"

definition no_system_view_arrival :: arrival where
  "no_system_view_arrival = calm_arrival\<lparr>ar_open_at := ZX_ERR_NOT_FOUND\<rparr>"

definition silent_exit_arrival :: arrival where
  "silent_exit_arrival = calm_arrival\<lparr>ar_wait_one := (ZX_OK, ZX_PROCESS_TERMINATED)\<rparr>"

definition both_paths_env :: environ where
  "both_paths_env = [''zircon.system.pkgfs.cmd'' \<mapsto> ''bin/pkgsvr'',
                     ''zircon.system.blob-init'' \<mapsto> ''/blob/init'']"

definition both_paths_host :: fshost where
  "both_paths_host =
     \<lparr>netboot = False, env = both_paths_env, filesystem_check = False, guids = example_guids\<rparr>"

definition failed_primary_arrival :: arrival where
  "failed_primary_arrival = calm_arrival\<lparr>ar_pkgfs_launch := (ZX_ERR_NOT_FOUND, 0)\<rparr>"

definition legacy_only_host :: fshost where
  "legacy_only_host =
     \<lparr>netboot = False, env = [''zircon.system.blob-init'' \<mapsto> ''/blob/init''],
      filesystem_check = False, guids = example_guids\<rparr>"

definition netboot_host :: fshost where
  "netboot_host =
     \<lparr>netboot = True, env = Map.empty, filesystem_check = False, guids = example_guids\<rparr>"

definition plain_host :: fshost where
  "plain_host =
     \<lparr>netboot = False, env = Map.empty, filesystem_check = False, guids = example_guids\<rparr>"

definition gpt_disk_arrival :: arrival where
  "gpt_disk_arrival =
     calm_arrival\<lparr>ar_device := plain_device\<lparr>bd_format := DISK_FORMAT_GPT\<rparr>\<rparr>"

definition fat_arrival :: arrival where
  "fat_arrival =
     calm_arrival\<lparr>ar_device := plain_device\<lparr>bd_format := DISK_FORMAT_FAT\<rparr>\<rparr>"

definition data_arrival :: arrival where
  "data_arrival =
     calm_arrival\<lparr>ar_device := plain_device\<lparr>bd_type_guid := Some (replicate 16 2)\<rparr>\<rparr>"

definition system_arrival :: arrival where
  "system_arrival =
     calm_arrival\<lparr>ar_device := plain_device\<lparr>bd_type_guid := Some (replicate 16 1)\<rparr>\<rparr>"

definition blob_arrival :: arrival where
  "blob_arrival =
     calm_arrival\<lparr>ar_device := \<lparr>bd_info = Some 0, bd_format = DISK_FORMAT_BLOBFS,
                                  bd_type_guid = Some (replicate 16 4)\<rparr>\<rparr>"






definition pkgfs_host :: fshost where
  "pkgfs_host =
     \<lparr>netboot = False,
      env = [''zircon.system.pkgfs.cmd'' \<mapsto> ''bin/pkgsvr'',
             ''zircon.system.pkgfs.file.bin/pkgsvr'' \<mapsto> ''b10b''],
      filesystem_check = False, guids = example_guids\<rparr>"

definition failing_blob_arrival :: arrival where
  "failing_blob_arrival = blob_arrival\<lparr>ar_mount := ZX_ERR_BAD_STATE\<rparr>"

definition second_blob_arrival :: arrival where
  "second_blob_arrival = blob_arrival\<lparr>ar_name := ''001'', ar_openat := 4\<rparr>"

definition efi_fat_arrival :: arrival where
  "efi_fat_arrival =
     calm_arrival\<lparr>ar_device := \<lparr>bd_info = Some 0, bd_format = DISK_FORMAT_FAT,
                                  bd_type_guid = Some (replicate 16 5)\<rparr>\<rparr>"

definition second_fat_arrival :: arrival where
  "second_fat_arrival = fat_arrival\<lparr>ar_name := ''001'', ar_openat := 4\<rparr>"

definition timed_out_arrival :: arrival where
  "timed_out_arrival = calm_arrival\<lparr>ar_wait_one := (ZX_ERR_TIMED_OUT, 0)\<rparr>"

definition refused_install_arrival :: arrival where
  "refused_install_arrival = calm_arrival\<lparr>ar_installer := (\<lambda>p h. ZX_ERR_BAD_STATE)\<rparr>"


definition install_fat_arrival :: arrival where
  "install_fat_arrival =
     calm_arrival\<lparr>ar_device := \<lparr>bd_info = Some 0, bd_format = DISK_FORMAT_FAT,
                                  bd_type_guid = Some (replicate 16 3)\<rparr>\<rparr>"

definition bootpart_arrival :: arrival where
  "bootpart_arrival = calm_arrival\<lparr>ar_device := plain_device\<lparr>bd_info := Some 4\<rparr>\<rparr>"

definition fvm_arrival :: arrival where
  "fvm_arrival = calm_arrival\<lparr>ar_device := plain_device\<lparr>bd_format := DISK_FORMAT_FVM\<rparr>\<rparr>"

definition mbr_arrival :: arrival where
  "mbr_arrival = calm_arrival\<lparr>ar_device := plain_device\<lparr>bd_format := DISK_FORMAT_MBR\<rparr>\<rparr>"

definition zxcrypt_arrival :: arrival where
  "zxcrypt_arrival =
     calm_arrival\<lparr>ar_device := plain_device\<lparr>bd_format := DISK_FORMAT_ZXCRYPT\<rparr>\<rparr>"

definition removed_arrival :: arrival where
  "removed_arrival = calm_arrival\<lparr>ar_event := 2\<rparr>"





section \<open>Properties of the resolver\<close>

lemmas zx_status_defs =
  ZX_OK_def ZX_ERR_NOT_SUPPORTED_def ZX_ERR_INVALID_ARGS_def ZX_ERR_BAD_STATE_def
  ZX_ERR_TIMED_OUT_def ZX_ERR_NOT_FOUND_def ZX_ERR_ALREADY_BOUND_def ZX_ERR_BAD_PATH_def


lemma key_prefix_length: "length key_prefix = 25"
  by (simp add: key_prefix_def)

lemma snprintf_fits:
  "length text < 256 \<Longrightarrow> snprintf 256 text = (text, int (length text))"
  by (simp add: snprintf_def)

text \<open>
  C10. When the manifest key built from the fixed prefix, the prefix and the name does not
  fit in the 256-byte key buffer (its length is at least 256, so there is no room for the
  terminator), the resolver returns \<open>ZX_ERR_BAD_PATH\<close>, which is a different status from
  \<open>ZX_ERR_NOT_FOUND\<close>, stores no handle, and makes no call at all: it neither reads
  the boot configuration nor opens a blob.
\<close>

theorem load_blob_key_too_long:
  assumes "length (key_prefix @ prefix @ name) \<ge> 256"
  shows "pkgfs_ldsvc_load_blob w fs_blob_fd prefix name = (ZX_ERR_BAD_PATH, None, [])
       \<and> ZX_ERR_BAD_PATH \<noteq> ZX_ERR_NOT_FOUND"
  using assms by (simp add: pkgfs_ldsvc_load_blob_def snprintf_def zx_status_defs)

theorem load_blob_key_too_long_witness:
  "length (key_prefix @ ''lib/'' @ replicate 227 CHR ''a'') \<ge> 256
   \<and> pkgfs_ldsvc_load_blob
        \<lparr>lw_getenv = Map.empty, lw_openat = (\<lambda>d b. 3), lw_get_vmo_clone = (\<lambda>f. (ZX_OK, 7))\<rparr>
        5 ''lib/'' (replicate 227 CHR ''a'') = (ZX_ERR_BAD_PATH, None, [])"
proof -
  have h: "length (key_prefix @ ''lib/'' @ replicate 227 CHR ''a'') \<ge> 256"
    by (simp add: key_prefix_def)
  show ?thesis
    using h load_blob_key_too_long [OF h] by simp
qed

text \<open>
  C7, as stated, fails. A name whose key is absent from the boot configuration does not
  always give "not found": when the key does not fit the key buffer the resolver answers
  \<open>ZX_ERR_BAD_PATH\<close>. Here the name has 231 characters, the key 256, and the boot
  configuration is empty.
\<close>

theorem load_blob_absent_long_key_counterexample:
  "lw_getenv no_manifest_world (key_prefix @ [] @ long_name) = None
   \<and> fst (pkgfs_ldsvc_load_blob no_manifest_world 5 [] long_name) = ZX_ERR_BAD_PATH
   \<and> ZX_ERR_BAD_PATH \<noteq> ZX_ERR_NOT_FOUND"
  by (simp add: no_manifest_world_def long_name_def key_prefix_def
      pkgfs_ldsvc_load_blob_def snprintf_def zx_status_defs)

text \<open>
  C7, amended. For every logical name whose key (the fixed prefix, the prefix and the name)
  fits the 256-byte key buffer: if the key is absent from the boot configuration the resolver
  returns "not found" after reading the configuration only, opening nothing; if the key is
  present, the one blob the resolver opens is the blob named by the key's value, a blob that
  fails to open gives "not found", and a handle is returned only with status \<open>ZX_OK\<close>
  and is then the clone of that blob, never other content. A shared-library name is looked
  up under the \<open>lib/\<close> prefix, an absolute path without its first character.
\<close>

theorem load_blob_round_trip:
  assumes fits: "length (key_prefix @ prefix @ name) < 256"
    and key: "key = key_prefix @ prefix @ name"
    and res: "pkgfs_ldsvc_load_blob w fs_blob_fd prefix name = (st, vmo, tr)"
  shows "(lw_getenv w key = None \<longrightarrow> st = ZX_ERR_NOT_FOUND \<and> vmo = None \<and> tr = [Getenv key])
       \<and> (\<forall>blob. lw_getenv w key = Some blob \<longrightarrow>
            take 2 tr = [Getenv key, Openat fs_blob_fd blob]
          \<and> opened_blobs tr = [blob]
          \<and> (lw_openat w fs_blob_fd blob < 0 \<longrightarrow> st = ZX_ERR_NOT_FOUND \<and> vmo = None)
          \<and> (0 \<le> lw_openat w fs_blob_fd blob \<longrightarrow>
               st = fst (lw_get_vmo_clone w (lw_openat w fs_blob_fd blob))
             \<and> vmo = (if st = ZX_OK
                      then Some (snd (lw_get_vmo_clone w (lw_openat w fs_blob_fd blob)))
                      else None)))
       \<and> pkgfs_ldsvc_load_object w fs_blob_fd name
           = pkgfs_ldsvc_load_blob w fs_blob_fd ''lib/'' name
       \<and> pkgfs_ldsvc_load_abspath w fs_blob_fd (c # name)
           = Some (pkgfs_ldsvc_load_blob w fs_blob_fd [] name)"
proof -
  have sn: "snprintf 256 (key_prefix @ prefix @ name) = (key, int (length key))"
    using fits key by (simp add: snprintf_def)
  have small: "\<not> 256 \<le> int (length key)"
    using fits key by simp
  show ?thesis
    using res small
    by (auto simp add: pkgfs_ldsvc_load_blob_def sn Let_def pkgfs_ldsvc_load_object_def
        pkgfs_ldsvc_load_abspath_def
        split: option.splits prod.splits if_splits)
qed

theorem load_blob_round_trip_witness:
  "length (key_prefix @ [] @ ''bin/pkgsvr'') < 256
   \<and> lw_getenv blob_world (key_prefix @ [] @ ''bin/pkgsvr'') = Some ''b10b''
   \<and> opened_blobs (snd (snd (pkgfs_ldsvc_load_blob blob_world 5 [] ''bin/pkgsvr''))) = [''b10b'']
   \<and> fst (pkgfs_ldsvc_load_blob blob_world 5 [] ''bin/pkgsvr'') = ZX_OK
   \<and> fst (snd (pkgfs_ldsvc_load_blob blob_world 5 [] ''bin/pkgsvr'')) = Some 9
   \<and> lw_getenv blob_world (key_prefix @ ''lib/'' @ ''libc.so'') = None
   \<and> fst (pkgfs_ldsvc_load_blob blob_world 5 ''lib/'' ''libc.so'') = ZX_ERR_NOT_FOUND
   \<and> lw_getenv blob_world (key_prefix @ ''lib/'' @ ''ld.so.1'') = Some ''1d50''
   \<and> lw_openat blob_world 5 ''1d50'' < 0
   \<and> fst (pkgfs_ldsvc_load_blob blob_world 5 ''lib/'' ''ld.so.1'') = ZX_ERR_NOT_FOUND
   \<and> fst (snd (pkgfs_ldsvc_load_blob blob_world 5 ''lib/'' ''ld.so.1'')) = None"
proof -
  have f1: "length (key_prefix @ [] @ ''bin/pkgsvr'') < 256"
    by (simp add: key_prefix_def)
  have e1: "lw_getenv blob_world (key_prefix @ [] @ ''bin/pkgsvr'') = Some ''b10b''"
    by (simp add: blob_world_def manifest_env_def key_prefix_def)
  have o1: "lw_openat blob_world 5 ''b10b'' = 4" "lw_get_vmo_clone blob_world 4 = (ZX_OK, 9)"
    by (simp_all add: blob_world_def)
  have f2: "length (key_prefix @ ''lib/'' @ ''libc.so'') < 256"
    by (simp add: key_prefix_def)
  have e2: "lw_getenv blob_world (key_prefix @ ''lib/'' @ ''libc.so'') = None"
    by (simp add: blob_world_def manifest_env_def key_prefix_def)
  have f3: "length (key_prefix @ ''lib/'' @ ''ld.so.1'') < 256"
    by (simp add: key_prefix_def)
  have e3: "lw_getenv blob_world (key_prefix @ ''lib/'' @ ''ld.so.1'') = Some ''1d50''"
    by (simp add: blob_world_def manifest_env_def key_prefix_def)
  have o3: "lw_openat blob_world 5 ''1d50'' < 0"
    by (simp add: blob_world_def)
  define r where "r = pkgfs_ldsvc_load_blob blob_world 5 [] ''bin/pkgsvr''"
  have res1: "pkgfs_ldsvc_load_blob blob_world 5 [] ''bin/pkgsvr''
      = (fst r, fst (snd r), snd (snd r))"
    by (simp add: r_def)
  have t1: "opened_blobs (snd (snd r)) = [''b10b''] \<and> fst r = ZX_OK \<and> fst (snd r) = Some 9"
    using load_blob_round_trip [OF f1 refl res1] e1 o1 by simp
  define q where "q = pkgfs_ldsvc_load_blob blob_world 5 ''lib/'' ''libc.so''"
  have res2: "pkgfs_ldsvc_load_blob blob_world 5 ''lib/'' ''libc.so''
      = (fst q, fst (snd q), snd (snd q))"
    by (simp add: q_def)
  have t2: "fst q = ZX_ERR_NOT_FOUND"
    using load_blob_round_trip [OF f2 refl res2] e2 by simp
  define u where "u = pkgfs_ldsvc_load_blob blob_world 5 ''lib/'' ''ld.so.1''"
  have res3: "pkgfs_ldsvc_load_blob blob_world 5 ''lib/'' ''ld.so.1''
      = (fst u, fst (snd u), snd (snd u))"
    by (simp add: u_def)
  have t3: "fst u = ZX_ERR_NOT_FOUND \<and> fst (snd u) = None"
    using load_blob_round_trip [OF f3 refl res3] e3 o3 by simp
  show ?thesis
    using f1 e1 e2 e3 o3 t1 t2 t3 unfolding r_def q_def u_def by simp
qed

section \<open>The integrity-check gate\<close>

lemmas handler_defs =
  block_device_added_def added_blobfs_def added_minfs_def added_fat_def mount_minfs_def
  fshost_fsck_def fsck_def launch_fsck_def ioctl_block_get_type_guid_def memcmp_def
  gpt_is_sys_guid_def gpt_is_data_guid_def gpt_is_install_guid_def gpt_is_efi_guid_def
  GPT_GUID_LEN_def GUID_EMPTY_VALUE_def uninit_guid_def default_mount_options_def
  BLOCK_FLAG_BOOTPART_def BLOCK_FLAG_REMOVABLE_def WATCH_EVENT_ADD_FILE_def

lemmas path_defs =
  PATH_SYSTEM_def PATH_DATA_def PATH_INSTALL_def PATH_BLOB_def PATH_VOLUME_def
  PATH_DEV_BLOCK_def FVM_DRIVER_LIB_def GPT_DRIVER_LIB_def MBR_DRIVER_LIB_def
  BOOTPART_DRIVER_LIB_def ZXCRYPT_DRIVER_LIB_def


lemma launch_fsck_failure:
  "(launch_fsck ar \<noteq> ZX_OK) =
     (ar_fsck_launch ar \<noteq> ZX_OK \<or> ar_fsck_wait ar \<noteq> ZX_OK
      \<or> ar_fsck_get_info ar \<noteq> ZX_OK \<or> ar_fsck_return_code ar \<noteq> 0)"
  by (simp add: launch_fsck_def zx_status_defs)

lemma fshost_fsck_cases:
  "fshost_fsck cfg ar p d = (st, tr) \<Longrightarrow>
     (tr = [] \<and> st = ZX_OK) \<or> (tr = [Fsck p d st] \<and> st = launch_fsck ar \<and> filesystem_check cfg)"
  by (auto simp add: fshost_fsck_def fsck_def Let_def split: if_splits)

lemma pkgfs_finish_no_fsck: "\<not> list_ex is_fsck (pkgfs_finish ar proc root)"
  by (simp add: pkgfs_finish_def Let_def split: prod.splits)

lemma old_launch_no_fsck: "\<not> list_ex is_fsck (old_launch_blob_init cfg ar)"
  by (simp add: old_launch_blob_init_def Let_def pkgfs_finish_no_fsck split: prod.splits option.splits)

lemma pkgfs_launch_no_fsck: "\<not> list_ex is_fsck (snd (pkgfs_launch cfg ar))"
  by (simp add: pkgfs_launch_def Let_def pkgfs_finish_no_fsck split: prod.splits option.splits)

lemma launch_blob_init_no_fsck: "\<not> list_ex is_fsck (launch_blob_init cfg ar)"
  using pkgfs_launch_no_fsck [of cfg ar] old_launch_no_fsck [of cfg ar]
  by (cases "pkgfs_launch cfg ar") (auto simp add: launch_blob_init_def)

lemma mount_minfs_no_fsck:
  "mount_minfs cfg ar fd opts s = (st, s1, tr) \<Longrightarrow> \<not> list_ex is_fsck tr"
  by (auto simp add: mount_minfs_def Let_def split: prod.splits option.splits if_splits)

lemma failed_is_fsck: "list_ex is_failed_fsck tr \<Longrightarrow> list_ex is_fsck tr"
  by (induction tr) (auto elim: is_failed_fsck.elims)

lemma added_minfs_fsck_failed:
  assumes "added_minfs cfg ar fd p s = (st, s1, tr)" "list_ex is_failed_fsck tr"
  shows "st = ZX_OK \<and> s1 = s \<and> tr = [Fsck p DISK_FORMAT_MINFS (launch_fsck ar), Close fd]
     \<and> launch_fsck ar \<noteq> ZX_OK \<and> filesystem_check cfg"
proof (cases "fshost_fsck cfg ar p DISK_FORMAT_MINFS")
  case (Pair fs ftr)
  note c = fshost_fsck_cases [OF Pair]
  show ?thesis
  proof (cases "fs = ZX_OK")
    case True
    obtain st2 s2 tr2 where mm: "mount_minfs cfg ar fd (default_mount_options\<lparr>wait_until_ready := False\<rparr>) s = (st2, s2, tr2)"
      by (metis prod_cases3)
    have "tr = ftr @ tr2" using assms(1) Pair True mm by (simp add: added_minfs_def Let_def)
    moreover have "\<not> list_ex is_failed_fsck tr2" using mount_minfs_no_fsck [OF mm] failed_is_fsck by blast
    moreover have "\<not> list_ex is_failed_fsck ftr" using c True by auto
    ultimately show ?thesis using assms(2) by simp
  next
    case False
    then show ?thesis using assms(1) Pair c by (auto simp add: added_minfs_def Let_def)
  qed
qed

lemma added_blobfs_fsck_failed:
  assumes "added_blobfs cfg ar fd p g s = (st, s1, tr)" "list_ex is_failed_fsck tr"
  shows "st = ZX_OK \<and> s1 = s \<and> tr = [Fsck p DISK_FORMAT_BLOBFS (launch_fsck ar), Close fd]
     \<and> launch_fsck ar \<noteq> ZX_OK \<and> filesystem_check cfg"
proof (cases "fshost_fsck cfg ar p DISK_FORMAT_BLOBFS")
  case (Pair fs ftr)
  note c = fshost_fsck_cases [OF Pair]
  show ?thesis
  proof (cases "fs = ZX_OK")
    case True
    have nf: "\<not> list_ex is_failed_fsck ftr" using c True by auto
    have nl: "\<not> list_ex is_failed_fsck (launch_blob_init cfg ar)"
      using launch_blob_init_no_fsck failed_is_fsck by blast
    show ?thesis using assms Pair True nf nl
      by (auto simp add: added_blobfs_def Let_def split: if_splits)
  next
    case False
    then show ?thesis using assms Pair c by (auto simp add: added_blobfs_def Let_def split: if_splits)
  qed
qed

lemma added_fat_no_fsck:
  "added_fat cfg ar fd df s = (st, s1, tr) \<Longrightarrow> \<not> list_ex is_failed_fsck tr"
  by (auto simp add: added_fat_def Let_def split: prod.splits if_splits)

lemma block_device_added_shape:
  assumes "block_device_added cfg ar s = (st, s1, tr)"
  shows "(s1 = s \<and> st = ZX_OK \<and> tr = [])
    \<or> (s1 = s \<and> st = ZX_OK \<and> (\<exists>lib. tr = [DeviceBind (ar_openat ar) lib, Close (ar_openat ar)]))
    \<or> (s1 = s \<and> st = ZX_OK \<and> tr = [Close (ar_openat ar)])
    \<or> (st = ZX_OK \<and> (\<exists>st2. mount_minfs cfg ar (ar_openat ar)
            (default_mount_options\<lparr>wait_until_ready := False\<rparr>) s = (st2, s1, tr)))
    \<or> (\<exists>g. added_blobfs cfg ar (ar_openat ar) (PATH_DEV_BLOCK @ ''/'' @ ar_name ar) g s = (st, s1, tr))
    \<or> added_minfs cfg ar (ar_openat ar) (PATH_DEV_BLOCK @ ''/'' @ ar_name ar) s = (st, s1, tr)
    \<or> added_fat cfg ar (ar_openat ar) DISK_FORMAT_FAT s = (st, s1, tr)"
  using assms
  by (auto simp add: block_device_added_def Let_def
      split: if_splits option.splits disk_format_t.splits prod.splits)

lemma block_device_added_fsck_failed:
  assumes a: "block_device_added cfg ar s = (st, s1, tr)" and f: "list_ex is_failed_fsck tr"
  shows "st = ZX_OK \<and> s1 = s \<and> \<not> list_ex is_mount tr \<and> last tr = Close (ar_openat ar)
     \<and> launch_fsck ar \<noteq> ZX_OK \<and> filesystem_check cfg"
  using block_device_added_shape [OF a]
proof (elim disjE conjE exE)
  fix st2 assume "mount_minfs cfg ar (ar_openat ar)
            (default_mount_options\<lparr>wait_until_ready := False\<rparr>) s = (st2, s1, tr)"
  from mount_minfs_no_fsck [OF this] f failed_is_fsck show ?thesis by blast
next
  fix g assume "added_blobfs cfg ar (ar_openat ar) (PATH_DEV_BLOCK @ ''/'' @ ar_name ar) g s = (st, s1, tr)"
  from added_blobfs_fsck_failed [OF this f] show ?thesis by simp
next
  assume "added_minfs cfg ar (ar_openat ar) (PATH_DEV_BLOCK @ ''/'' @ ar_name ar) s = (st, s1, tr)"
  from added_minfs_fsck_failed [OF this f] show ?thesis by simp
next
  assume "added_fat cfg ar (ar_openat ar) DISK_FORMAT_FAT s = (st, s1, tr)"
  from added_fat_no_fsck [OF this] f show ?thesis by simp
qed (use f in auto)

text \<open>
  C5. Without the integrity-check flag \<open>fshost_fsck\<close> returns \<open>ZX_OK\<close> and
  makes no call. With the flag it runs the checker and reports failure exactly when the child
  could not be launched, waited on or inspected, or exited with a non-zero code. Whenever the
  handler's calls contain a failed check, the handler makes no mount call, ends by closing the
  device descriptor, leaves the latches as they were and returns \<open>ZX_OK\<close>, the
  status on which the watcher continues; for a minfs device and for a blobfs device of the
  blob type, outside network-boot mode, the calls are exactly the check and the close.
\<close>

theorem fsck_gate:
  "(\<not> filesystem_check cfg \<longrightarrow> fshost_fsck cfg ar device_path df = (ZX_OK, []))
   \<and> (filesystem_check cfg \<longrightarrow>
        fshost_fsck cfg ar device_path df
          = (launch_fsck ar, [Fsck device_path df (launch_fsck ar)])
      \<and> (launch_fsck ar \<noteq> ZX_OK) =
          (ar_fsck_launch ar \<noteq> ZX_OK \<or> ar_fsck_wait ar \<noteq> ZX_OK
           \<or> ar_fsck_get_info ar \<noteq> ZX_OK \<or> ar_fsck_return_code ar \<noteq> 0))
   \<and> (block_device_added cfg ar s = (st, s1, tr) \<and> list_ex is_failed_fsck tr \<longrightarrow>
        st = ZX_OK \<and> s1 = s \<and> \<not> list_ex is_mount tr \<and> last tr = Close (ar_openat ar))
   \<and> (filesystem_check cfg \<and> launch_fsck ar \<noteq> ZX_OK \<and> \<not> netboot cfg
        \<and> ar_event ar = WATCH_EVENT_ADD_FILE \<and> 0 \<le> ar_openat ar
        \<and> \<not> is_bootpart (ar_device ar)
        \<and> (bd_format (ar_device ar) = DISK_FORMAT_MINFS
            \<or> bd_format (ar_device ar) = DISK_FORMAT_BLOBFS
              \<and> memcmp (handler_guid (ar_device ar)) (GUID_BLOB_VALUE (guids cfg))
                   GPT_GUID_LEN = 0) \<longrightarrow>
        block_device_added cfg ar s
          = (ZX_OK, s, [Fsck (PATH_DEV_BLOCK @ ''/'' @ ar_name ar) (bd_format (ar_device ar))
                          (launch_fsck ar),
                        Close (ar_openat ar)]))"
proof (intro conjI impI)
  assume "\<not> filesystem_check cfg"
  then show "fshost_fsck cfg ar device_path df = (ZX_OK, [])"
    by (simp add: fshost_fsck_def)
next
  assume "filesystem_check cfg"
  then show "fshost_fsck cfg ar device_path df
      = (launch_fsck ar, [Fsck device_path df (launch_fsck ar)])"
    by (simp add: fshost_fsck_def fsck_def Let_def)
next
  show "(launch_fsck ar \<noteq> ZX_OK) =
          (ar_fsck_launch ar \<noteq> ZX_OK \<or> ar_fsck_wait ar \<noteq> ZX_OK
           \<or> ar_fsck_get_info ar \<noteq> ZX_OK \<or> ar_fsck_return_code ar \<noteq> 0)"
    by (rule launch_fsck_failure)
next
  assume a: "block_device_added cfg ar s = (st, s1, tr) \<and> list_ex is_failed_fsck tr"
  from block_device_added_fsck_failed [of cfg ar s st s1 tr] a
  show "st = ZX_OK" "s1 = s" "\<not> list_ex is_mount tr" "last tr = Close (ar_openat ar)"
    by simp_all
next
  assume a: "filesystem_check cfg \<and> launch_fsck ar \<noteq> ZX_OK \<and> \<not> netboot cfg
        \<and> ar_event ar = WATCH_EVENT_ADD_FILE \<and> 0 \<le> ar_openat ar
        \<and> \<not> is_bootpart (ar_device ar)
        \<and> (bd_format (ar_device ar) = DISK_FORMAT_MINFS
            \<or> bd_format (ar_device ar) = DISK_FORMAT_BLOBFS
              \<and> memcmp (handler_guid (ar_device ar)) (GUID_BLOB_VALUE (guids cfg))
                   GPT_GUID_LEN = 0)"
  then have fs: "\<And>p d. fshost_fsck cfg ar p d = (launch_fsck ar, [Fsck p d (launch_fsck ar)])"
    by (simp add: fshost_fsck_def fsck_def Let_def)
  from a show "block_device_added cfg ar s
          = (ZX_OK, s, [Fsck (PATH_DEV_BLOCK @ ''/'' @ ar_name ar) (bd_format (ar_device ar))
                          (launch_fsck ar),
                        Close (ar_openat ar)])"
    by (auto simp add: block_device_added_def added_minfs_def added_blobfs_def fs Let_def
        is_bootpart_def handler_guid_def split: option.splits)
qed

theorem fsck_gate_witness:
  "filesystem_check checking_host \<and> launch_fsck corrupt_data_arrival \<noteq> ZX_OK
   \<and> block_device_added checking_host corrupt_data_arrival initial_state
       = (ZX_OK, initial_state,
          [Fsck ''/dev/class/block/000'' DISK_FORMAT_MINFS ZX_ERR_BAD_STATE, Close 3])
   \<and> fshost_fsck (checking_host\<lparr>filesystem_check := False\<rparr>) corrupt_data_arrival
        ''/dev/class/block/000'' DISK_FORMAT_MINFS = (ZX_OK, [])"
proof -
  have c: "filesystem_check checking_host" "\<not> netboot checking_host"
    "\<not> filesystem_check (checking_host\<lparr>filesystem_check := False\<rparr>)"
    by (simp_all add: checking_host_def)
  have l: "launch_fsck corrupt_data_arrival = ZX_ERR_BAD_STATE"
    by (simp add: launch_fsck_def example_guids_def checking_host_def plain_device_def
        calm_arrival_def corrupt_data_arrival_def zx_status_defs)
  have d: "ar_event corrupt_data_arrival = WATCH_EVENT_ADD_FILE"
    "ar_openat corrupt_data_arrival = 3" "ar_name corrupt_data_arrival = ''000''"
    "\<not> is_bootpart (ar_device corrupt_data_arrival)"
    "bd_format (ar_device corrupt_data_arrival) = DISK_FORMAT_MINFS"
    by (simp_all add: example_guids_def checking_host_def plain_device_def calm_arrival_def
        corrupt_data_arrival_def is_bootpart_def)
  have n: "ZX_ERR_BAD_STATE \<noteq> ZX_OK" by (simp add: zx_status_defs)
  show ?thesis
    using fsck_gate [of checking_host corrupt_data_arrival _ _ initial_state]
      fsck_gate [of "checking_host\<lparr>filesystem_check := False\<rparr>" corrupt_data_arrival
        "''/dev/class/block/000''" DISK_FORMAT_MINFS]
      c l d n
    by (simp add: PATH_DEV_BLOCK_def)
qed

section \<open>The bootstrap completion wait and the two launch paths\<close>

lemmas signal_defs = ZX_USER_SIGNAL_0_def ZX_PROCESS_TERMINATED_def

text \<open>
  C6, as stated, fails. The launched process raises the ready signal in time and the
  installer accepts every path, yet the system sub-view is not installed and the dependent
  services are not started: opening \<open>system\<close> inside the package root failed, and the
  code gives up there.
\<close>

theorem pkgfs_finish_open_failure_counterexample:
  "fst (ar_wait_one no_system_view_arrival) = ZX_OK
   \<and> snd (ar_wait_one no_system_view_arrival) AND ZX_USER_SIGNAL_0 \<noteq> 0
   \<and> ar_installer no_system_view_arrival ''/pkgfs'' 11 = ZX_OK
   \<and> ar_installer no_system_view_arrival ''/system'' 20 = ZX_OK
   \<and> pkgfs_finish no_system_view_arrival 12 11
       = [WaitOne 12 (ZX_USER_SIGNAL_0 OR ZX_PROCESS_TERMINATED) 5,
          Install ''/pkgfs'' 11 ZX_OK,
          OpenAt 11 ''system'' 21 ZX_ERR_NOT_FOUND]"
  by (simp add: pkgfs_finish_def no_system_view_arrival_def calm_arrival_def Let_def
      signal_defs zx_status_defs)

text \<open>
  C6, amended. The completion wait is bounded at 5 seconds and comes first. If the wait
  fails (time-out) or the process terminated without the ready signal, nothing is installed.
  If the ready signal was raised, the package root is installed at \<open>/pkgfs\<close>; then a
  channel is created and \<open>system\<close> is opened inside the package root; then that
  sub-view is installed at \<open>/system\<close>; then the dependent services are started. Each
  step is made once, in this order, and a failure of any of them (either installation, the
  channel creation, or opening the sub-view) ends the sequence there, without retry.
\<close>

theorem pkgfs_finish_protocol:
  assumes w: "ar_wait_one ar = (wst, observed)"
    and c: "ar_finish_channel ar = (cst, h0, h1)"
    and wt: "wait = WaitOne proc (ZX_USER_SIGNAL_0 OR ZX_PROCESS_TERMINATED) 5"
    and i1: "inst1 = Install ''/pkgfs'' root (ar_installer ar ''/pkgfs'' root)"
    and op: "opn = OpenAt root ''system'' h1 (ar_open_at ar)"
    and i2: "inst2 = Install ''/system'' h0 (ar_installer ar ''/system'' h0)"
  shows "(wst \<noteq> ZX_OK \<or> observed AND ZX_USER_SIGNAL_0 = 0 \<longrightarrow>
            pkgfs_finish ar proc root = [wait])
       \<and> (wst = ZX_OK \<and> observed AND ZX_USER_SIGNAL_0 \<noteq> 0 \<longrightarrow>
            (ar_installer ar ''/pkgfs'' root \<noteq> ZX_OK \<longrightarrow>
               pkgfs_finish ar proc root = [wait, inst1])
          \<and> (ar_installer ar ''/pkgfs'' root = ZX_OK \<and> cst \<noteq> ZX_OK \<longrightarrow>
               pkgfs_finish ar proc root = [wait, inst1])
          \<and> (ar_installer ar ''/pkgfs'' root = ZX_OK \<and> cst = ZX_OK
              \<and> ar_open_at ar \<noteq> ZX_OK \<longrightarrow>
               pkgfs_finish ar proc root = [wait, inst1, opn])
          \<and> (ar_installer ar ''/pkgfs'' root = ZX_OK \<and> cst = ZX_OK
              \<and> ar_open_at ar = ZX_OK \<and> ar_installer ar ''/system'' h0 \<noteq> ZX_OK \<longrightarrow>
               pkgfs_finish ar proc root = [wait, inst1, opn, inst2])
          \<and> (ar_installer ar ''/pkgfs'' root = ZX_OK \<and> cst = ZX_OK
              \<and> ar_open_at ar = ZX_OK \<and> ar_installer ar ''/system'' h0 = ZX_OK \<longrightarrow>
               pkgfs_finish ar proc root = [wait, inst1, opn, inst2, FuchsiaStart]))"
  using w c by (simp add: pkgfs_finish_def Let_def wt i1 op i2)

theorem pkgfs_finish_protocol_witness:
  "pkgfs_finish calm_arrival 12 11
     = [WaitOne 12 (ZX_USER_SIGNAL_0 OR ZX_PROCESS_TERMINATED) 5,
        Install ''/pkgfs'' 11 ZX_OK, OpenAt 11 ''system'' 21 ZX_OK,
        Install ''/system'' 20 ZX_OK, FuchsiaStart]
   \<and> pkgfs_finish silent_exit_arrival 12 11
     = [WaitOne 12 (ZX_USER_SIGNAL_0 OR ZX_PROCESS_TERMINATED) 5]
   \<and> pkgfs_finish timed_out_arrival 12 11
     = [WaitOne 12 (ZX_USER_SIGNAL_0 OR ZX_PROCESS_TERMINATED) 5]
   \<and> pkgfs_finish refused_install_arrival 12 11
     = [WaitOne 12 (ZX_USER_SIGNAL_0 OR ZX_PROCESS_TERMINATED) 5,
        Install ''/pkgfs'' 11 ZX_ERR_BAD_STATE]"
proof -
  have r: "ar_wait_one calm_arrival = (ZX_OK, ZX_USER_SIGNAL_0)"
    "ar_finish_channel calm_arrival = (ZX_OK, 20, 21)"
    "ar_installer calm_arrival ''/pkgfs'' 11 = ZX_OK"
    "ar_installer calm_arrival ''/system'' 20 = ZX_OK"
    "ar_open_at calm_arrival = ZX_OK"
    by (simp_all add: calm_arrival_def)
  have q: "ar_wait_one silent_exit_arrival = (ZX_OK, ZX_PROCESS_TERMINATED)"
    "ar_finish_channel silent_exit_arrival = (ZX_OK, 20, 21)"
    by (simp_all add: silent_exit_arrival_def calm_arrival_def)
  have t: "ar_wait_one timed_out_arrival = (ZX_ERR_TIMED_OUT, 0)"
    "ar_finish_channel timed_out_arrival = (ZX_OK, 20, 21)"
    "ZX_ERR_TIMED_OUT \<noteq> ZX_OK"
    by (simp_all add: timed_out_arrival_def calm_arrival_def zx_status_defs)
  have i: "ar_wait_one refused_install_arrival = (ZX_OK, ZX_USER_SIGNAL_0)"
    "ar_finish_channel refused_install_arrival = (ZX_OK, 20, 21)"
    "ar_installer refused_install_arrival ''/pkgfs'' 11 = ZX_ERR_BAD_STATE"
    "ZX_ERR_BAD_STATE \<noteq> ZX_OK"
    by (simp_all add: refused_install_arrival_def calm_arrival_def zx_status_defs)
  have s: "ZX_USER_SIGNAL_0 AND ZX_USER_SIGNAL_0 \<noteq> 0"
    "ZX_PROCESS_TERMINATED AND ZX_USER_SIGNAL_0 = 0"
    by (simp_all add: signal_defs)
  show ?thesis
    using pkgfs_finish_protocol [OF r(1) r(2) refl refl refl refl, of 12 11]
      pkgfs_finish_protocol [OF q(1) q(2) refl refl refl refl, of 12 11]
      pkgfs_finish_protocol [OF t(1) t(2) refl refl refl refl, of 12 11]
      pkgfs_finish_protocol [OF i(1) i(2) refl refl refl refl, of 12 11] r s t(3) i(3,4)
    by simp
qed

lemma pkgfs_finish_no_legacy: "\<not> list_ex is_legacy_launch (pkgfs_finish ar proc root)"
  by (simp add: pkgfs_finish_def Let_def split: prod.splits)

lemma pkgfs_launch_no_legacy: "\<not> list_ex is_legacy_launch (snd (pkgfs_launch cfg ar))"
  by (simp add: pkgfs_launch_def Let_def pkgfs_finish_no_legacy
      split: prod.splits option.splits)

lemma pkgfs_launch_launched:
  "fst (pkgfs_launch cfg ar) =
     (env cfg ''zircon.system.pkgfs.cmd'' \<noteq> None \<and> 0 \<le> ar_open_fs_blob ar
      \<and> fst (ar_pkgfs_channel ar) = ZX_OK \<and> fst (ar_pkgfs_launch ar) = ZX_OK)"
  by (auto simp add: pkgfs_launch_def Let_def split: prod.splits option.splits)

lemma old_launch_legacy:
  "list_ex is_legacy_launch (old_launch_blob_init cfg ar) =
     (env cfg ''zircon.system.blob-init'' \<noteq> None \<and> \<not> ar_secondary_bootfs_ready ar
      \<and> fst (ar_old_channel ar) = ZX_OK)"
  by (auto simp add: old_launch_blob_init_def Let_def split: prod.splits option.splits)

lemma pkgfs_finish_waits: "length (filter is_wait (pkgfs_finish ar proc root)) = 1"
  by (simp add: pkgfs_finish_def Let_def split: prod.splits)

lemma launch_blob_init_waits: "length (filter is_wait (launch_blob_init cfg ar)) \<le> 1"
  by (simp add: launch_blob_init_def pkgfs_launch_def old_launch_blob_init_def Let_def
      pkgfs_finish_waits split: prod.splits option.splits)

text \<open>
  C9, as stated, fails. A primary launch command is configured, but launching it fails;
  the handler then falls back to the legacy path and launches the legacy binary, so both
  paths are taken within one bootstrap attempt.
\<close>

theorem legacy_after_failed_primary_counterexample:
  "env both_paths_host ''zircon.system.pkgfs.cmd'' = Some ''bin/pkgsvr''
   \<and> launch_blob_init both_paths_host failed_primary_arrival
       = [OpenDir ''/fs/blob'' 6, LaunchCmdline ''bin/pkgsvr'' 6 11 ZX_ERR_NOT_FOUND,
          Launch [''/fs/blob/init''] 13 ZX_OK,
          WaitOne 15 (ZX_USER_SIGNAL_0 OR ZX_PROCESS_TERMINATED) 5,
          Install ''/pkgfs'' 14 ZX_OK, OpenAt 14 ''system'' 21 ZX_OK,
          Install ''/system'' 20 ZX_OK, FuchsiaStart]"
  by (simp add: launch_blob_init_def pkgfs_launch_def old_launch_blob_init_def
      pkgfs_finish_def both_paths_host_def both_paths_env_def failed_primary_arrival_def
      calm_arrival_def Let_def signal_defs zx_status_defs)

text \<open>
  C9, amended. The legacy path is entered exactly when the primary path did not launch the
  package-filesystem process: no launch command is configured, or opening the blob
  directory, creating the root channel or launching the command failed. With no command
  configured the primary path does nothing. Once entered, the legacy path does nothing when
  its own boot argument is absent or when an alternate boot filesystem already serves the
  system root; the legacy binary is launched exactly when the path is entered, the argument
  is present, no alternate boot filesystem is ready and its channel could be created. A
  launched primary process excludes the legacy launch, and one bootstrap attempt waits for
  completion at most once.
\<close>

theorem launch_blob_init_paths:
  "launch_blob_init cfg ar
     = snd (pkgfs_launch cfg ar)
       @ (if fst (pkgfs_launch cfg ar) then [] else old_launch_blob_init cfg ar)
   \<and> fst (pkgfs_launch cfg ar) =
       (env cfg ''zircon.system.pkgfs.cmd'' \<noteq> None \<and> 0 \<le> ar_open_fs_blob ar
        \<and> fst (ar_pkgfs_channel ar) = ZX_OK \<and> fst (ar_pkgfs_launch ar) = ZX_OK)
   \<and> (env cfg ''zircon.system.pkgfs.cmd'' = None \<longrightarrow>
        launch_blob_init cfg ar = old_launch_blob_init cfg ar)
   \<and> (env cfg ''zircon.system.blob-init'' = None \<or> ar_secondary_bootfs_ready ar \<longrightarrow>
        old_launch_blob_init cfg ar = [])
   \<and> list_ex is_legacy_launch (launch_blob_init cfg ar) =
       (\<not> fst (pkgfs_launch cfg ar) \<and> env cfg ''zircon.system.blob-init'' \<noteq> None
        \<and> \<not> ar_secondary_bootfs_ready ar \<and> fst (ar_old_channel ar) = ZX_OK)
   \<and> length (filter is_wait (launch_blob_init cfg ar)) \<le> 1"
proof (intro conjI impI)
  show split: "launch_blob_init cfg ar
     = snd (pkgfs_launch cfg ar)
       @ (if fst (pkgfs_launch cfg ar) then [] else old_launch_blob_init cfg ar)"
    by (cases "pkgfs_launch cfg ar") (simp add: launch_blob_init_def)
  show "fst (pkgfs_launch cfg ar) =
       (env cfg ''zircon.system.pkgfs.cmd'' \<noteq> None \<and> 0 \<le> ar_open_fs_blob ar
        \<and> fst (ar_pkgfs_channel ar) = ZX_OK \<and> fst (ar_pkgfs_launch ar) = ZX_OK)"
    by (rule pkgfs_launch_launched)
  show "list_ex is_legacy_launch (launch_blob_init cfg ar) =
       (\<not> fst (pkgfs_launch cfg ar) \<and> env cfg ''zircon.system.blob-init'' \<noteq> None
        \<and> \<not> ar_secondary_bootfs_ready ar \<and> fst (ar_old_channel ar) = ZX_OK)"
    using pkgfs_launch_no_legacy [of cfg ar] old_launch_legacy [of cfg ar]
    by (simp add: split)
  show "length (filter is_wait (launch_blob_init cfg ar)) \<le> 1"
    by (rule launch_blob_init_waits)
next
  assume "env cfg ''zircon.system.pkgfs.cmd'' = None"
  then show "launch_blob_init cfg ar = old_launch_blob_init cfg ar"
    by (simp add: launch_blob_init_def pkgfs_launch_def)
next
  assume "env cfg ''zircon.system.blob-init'' = None \<or> ar_secondary_bootfs_ready ar"
  then show "old_launch_blob_init cfg ar = []"
    by (auto simp add: old_launch_blob_init_def split: option.splits)
qed

theorem launch_blob_init_paths_witness:
  "env legacy_only_host ''zircon.system.pkgfs.cmd'' = None
   \<and> launch_blob_init legacy_only_host calm_arrival
       = old_launch_blob_init legacy_only_host calm_arrival
   \<and> list_ex is_legacy_launch (launch_blob_init legacy_only_host calm_arrival)
   \<and> env checking_host ''zircon.system.blob-init'' = None
   \<and> launch_blob_init checking_host calm_arrival = []"
proof -
  have e: "env legacy_only_host ''zircon.system.pkgfs.cmd'' = None"
    "env legacy_only_host ''zircon.system.blob-init'' \<noteq> None"
    "env checking_host ''zircon.system.pkgfs.cmd'' = None"
    "env checking_host ''zircon.system.blob-init'' = None"
    by (simp_all add: legacy_only_host_def checking_host_def)
  have a: "\<not> ar_secondary_bootfs_ready calm_arrival" "fst (ar_old_channel calm_arrival) = ZX_OK"
    by (simp_all add: calm_arrival_def)
  note p1 = launch_blob_init_paths [of legacy_only_host calm_arrival]
  note p2 = launch_blob_init_paths [of checking_host calm_arrival]
  have t1: "launch_blob_init legacy_only_host calm_arrival
       = old_launch_blob_init legacy_only_host calm_arrival"
    using p1 e(1) by blast
  have t2: "list_ex is_legacy_launch (launch_blob_init legacy_only_host calm_arrival)"
    using p1 e(1,2) a by blast
  have t3: "launch_blob_init checking_host calm_arrival = []"
    using p2 e(3,4) by metis
  show ?thesis
    using t1 t2 t3 e by blast
qed

section \<open>The device-added handler\<close>


text \<open>
  C3, as stated, fails. In network-boot mode a disk holding a GPT partition table, whose
  type GUID is not the install GUID (it has none), is bound to the GPT driver.
\<close>

theorem netboot_binds_container_counterexample:
  "netboot netboot_host
   \<and> memcmp (handler_guid (ar_device gpt_disk_arrival))
        (GUID_INSTALL_VALUE (guids netboot_host)) GPT_GUID_LEN \<noteq> 0
   \<and> block_device_added netboot_host gpt_disk_arrival initial_state
       = (ZX_OK, initial_state, [DeviceBind 3 ''/boot/driver/gpt.so'', Close 3])"
  by (simp add: handler_defs handler_guid_def path_defs example_guids_def plain_device_def
      calm_arrival_def netboot_host_def gpt_disk_arrival_def)

text \<open>
  C3, amended. In network-boot mode, for every arriving device whose type GUID is not the
  install GUID, the handler makes no mount call, changes no latch, returns \<open>ZX_OK\<close> and,
  if it opened the device, ends by closing the descriptor; an event that is not an added file,
  or whose device does not open, causes no call. It binds no driver either, and the close is
  its only call, unless the device is flagged as a boot partition or its format is a
  partition container (GPT, FVM, MBR, zxcrypt): a boot partition is bound to the
  boot-partition driver, and otherwise a container to the driver of its format, and then
  closed.
\<close>

theorem netboot_other_devices:
  assumes nb: "netboot cfg"
    and guid: "memcmp (handler_guid (ar_device ar)) (GUID_INSTALL_VALUE (guids cfg))
                 GPT_GUID_LEN \<noteq> 0"
    and res: "block_device_added cfg ar s = (st, s1, tr)"
  shows "st = ZX_OK \<and> s1 = s \<and> \<not> list_ex is_mount tr
       \<and> (ar_event ar \<noteq> WATCH_EVENT_ADD_FILE \<or> ar_openat ar < 0 \<longrightarrow> tr = [])
       \<and> (ar_event ar = WATCH_EVENT_ADD_FILE \<and> 0 \<le> ar_openat ar \<longrightarrow>
            tr \<noteq> [] \<and> last tr = Close (ar_openat ar))
       \<and> (ar_event ar = WATCH_EVENT_ADD_FILE \<and> 0 \<le> ar_openat ar
          \<and> \<not> is_bootpart (ar_device ar) \<and> \<not> is_container (bd_format (ar_device ar)) \<longrightarrow>
            tr = [Close (ar_openat ar)])
       \<and> (list_ex is_bind tr \<longrightarrow>
            is_bootpart (ar_device ar) \<or> is_container (bd_format (ar_device ar)))
       \<and> (ar_event ar = WATCH_EVENT_ADD_FILE \<and> 0 \<le> ar_openat ar
          \<and> is_bootpart (ar_device ar) \<longrightarrow>
            tr = [DeviceBind (ar_openat ar) BOOTPART_DRIVER_LIB, Close (ar_openat ar)])
       \<and> (ar_event ar = WATCH_EVENT_ADD_FILE \<and> 0 \<le> ar_openat ar
          \<and> \<not> is_bootpart (ar_device ar) \<and> bd_format (ar_device ar) = DISK_FORMAT_GPT \<longrightarrow>
            tr = [DeviceBind (ar_openat ar) GPT_DRIVER_LIB, Close (ar_openat ar)])
       \<and> (ar_event ar = WATCH_EVENT_ADD_FILE \<and> 0 \<le> ar_openat ar
          \<and> \<not> is_bootpart (ar_device ar) \<and> bd_format (ar_device ar) = DISK_FORMAT_FVM \<longrightarrow>
            tr = [DeviceBind (ar_openat ar) FVM_DRIVER_LIB, Close (ar_openat ar)])
       \<and> (ar_event ar = WATCH_EVENT_ADD_FILE \<and> 0 \<le> ar_openat ar
          \<and> \<not> is_bootpart (ar_device ar) \<and> bd_format (ar_device ar) = DISK_FORMAT_MBR \<longrightarrow>
            tr = [DeviceBind (ar_openat ar) MBR_DRIVER_LIB, Close (ar_openat ar)])
       \<and> (ar_event ar = WATCH_EVENT_ADD_FILE \<and> 0 \<le> ar_openat ar
          \<and> \<not> is_bootpart (ar_device ar)
          \<and> bd_format (ar_device ar) = DISK_FORMAT_ZXCRYPT \<longrightarrow>
            tr = [DeviceBind (ar_openat ar) ZXCRYPT_DRIVER_LIB, Close (ar_openat ar)])"
proof -
  have plain: "st = ZX_OK \<and> s1 = s \<and> \<not> list_ex is_mount tr
       \<and> (ar_event ar \<noteq> WATCH_EVENT_ADD_FILE \<or> ar_openat ar < 0 \<longrightarrow> tr = [])
       \<and> (ar_event ar = WATCH_EVENT_ADD_FILE \<and> 0 \<le> ar_openat ar \<longrightarrow>
            tr \<noteq> [] \<and> last tr = Close (ar_openat ar))
       \<and> (ar_event ar = WATCH_EVENT_ADD_FILE \<and> 0 \<le> ar_openat ar
          \<and> \<not> is_bootpart (ar_device ar) \<and> \<not> is_container (bd_format (ar_device ar)) \<longrightarrow>
            tr = [Close (ar_openat ar)])
       \<and> (list_ex is_bind tr \<longrightarrow>
            is_bootpart (ar_device ar) \<or> is_container (bd_format (ar_device ar)))"
    using nb guid res
    by (auto simp add: block_device_added_def Let_def is_bootpart_def handler_guid_def
        split: if_splits option.splits disk_format_t.splits)
  have boot: "ar_event ar = WATCH_EVENT_ADD_FILE \<and> 0 \<le> ar_openat ar
          \<and> is_bootpart (ar_device ar) \<longrightarrow>
            tr = [DeviceBind (ar_openat ar) BOOTPART_DRIVER_LIB, Close (ar_openat ar)]"
    using res
    by (auto simp add: block_device_added_def Let_def is_bootpart_def split: option.splits)
  have cont: "\<And>df lib. ar_event ar = WATCH_EVENT_ADD_FILE \<and> 0 \<le> ar_openat ar
          \<and> \<not> is_bootpart (ar_device ar) \<and> bd_format (ar_device ar) = df
          \<and> (df = DISK_FORMAT_GPT \<and> lib = GPT_DRIVER_LIB
              \<or> df = DISK_FORMAT_FVM \<and> lib = FVM_DRIVER_LIB
              \<or> df = DISK_FORMAT_MBR \<and> lib = MBR_DRIVER_LIB
              \<or> df = DISK_FORMAT_ZXCRYPT \<and> lib = ZXCRYPT_DRIVER_LIB) \<Longrightarrow>
            tr = [DeviceBind (ar_openat ar) lib, Close (ar_openat ar)]"
    using res
    by (auto simp add: block_device_added_def Let_def is_bootpart_def split: option.splits)
  show ?thesis
    using plain boot cont [of DISK_FORMAT_GPT GPT_DRIVER_LIB]
      cont [of DISK_FORMAT_FVM FVM_DRIVER_LIB] cont [of DISK_FORMAT_MBR MBR_DRIVER_LIB]
      cont [of DISK_FORMAT_ZXCRYPT ZXCRYPT_DRIVER_LIB]
    by blast
qed

theorem netboot_other_devices_witness:
  "netboot netboot_host
   \<and> memcmp (handler_guid (ar_device calm_arrival))
        (GUID_INSTALL_VALUE (guids netboot_host)) GPT_GUID_LEN \<noteq> 0
   \<and> block_device_added netboot_host calm_arrival initial_state
       = (ZX_OK, initial_state, [Close 3])
   \<and> memcmp (handler_guid (ar_device bootpart_arrival))
        (GUID_INSTALL_VALUE (guids netboot_host)) GPT_GUID_LEN \<noteq> 0
   \<and> block_device_added netboot_host bootpart_arrival initial_state
       = (ZX_OK, initial_state, [DeviceBind 3 ''/boot/driver/bootpart.so'', Close 3])
   \<and> memcmp (handler_guid (ar_device gpt_disk_arrival))
        (GUID_INSTALL_VALUE (guids netboot_host)) GPT_GUID_LEN \<noteq> 0
   \<and> block_device_added netboot_host gpt_disk_arrival initial_state
       = (ZX_OK, initial_state, [DeviceBind 3 ''/boot/driver/gpt.so'', Close 3])
   \<and> memcmp (handler_guid (ar_device fvm_arrival))
        (GUID_INSTALL_VALUE (guids netboot_host)) GPT_GUID_LEN \<noteq> 0
   \<and> block_device_added netboot_host fvm_arrival initial_state
       = (ZX_OK, initial_state, [DeviceBind 3 ''/boot/driver/fvm.so'', Close 3])
   \<and> memcmp (handler_guid (ar_device mbr_arrival))
        (GUID_INSTALL_VALUE (guids netboot_host)) GPT_GUID_LEN \<noteq> 0
   \<and> block_device_added netboot_host mbr_arrival initial_state
       = (ZX_OK, initial_state, [DeviceBind 3 ''/boot/driver/mbr.so'', Close 3])
   \<and> memcmp (handler_guid (ar_device zxcrypt_arrival))
        (GUID_INSTALL_VALUE (guids netboot_host)) GPT_GUID_LEN \<noteq> 0
   \<and> block_device_added netboot_host zxcrypt_arrival initial_state
       = (ZX_OK, initial_state, [DeviceBind 3 ''/boot/driver/zxcrypt.so'', Close 3])
   \<and> memcmp (handler_guid (ar_device removed_arrival))
        (GUID_INSTALL_VALUE (guids netboot_host)) GPT_GUID_LEN \<noteq> 0
   \<and> block_device_added netboot_host removed_arrival initial_state
       = (ZX_OK, initial_state, [])"
proof -
  have n: "netboot netboot_host" by (simp add: netboot_host_def)
  have lib: "BOOTPART_DRIVER_LIB = ''/boot/driver/bootpart.so''"
    "GPT_DRIVER_LIB = ''/boot/driver/gpt.so''" "FVM_DRIVER_LIB = ''/boot/driver/fvm.so''"
    "MBR_DRIVER_LIB = ''/boot/driver/mbr.so''" "ZXCRYPT_DRIVER_LIB = ''/boot/driver/zxcrypt.so''"
    by (simp_all add: path_defs)
  have g0: "memcmp (handler_guid (ar_device calm_arrival))
        (GUID_INSTALL_VALUE (guids netboot_host)) GPT_GUID_LEN \<noteq> 0"
    by (simp add: handler_guid_def ioctl_block_get_type_guid_def memcmp_def
        GPT_GUID_LEN_def GUID_EMPTY_VALUE_def netboot_host_def example_guids_def
        calm_arrival_def plain_device_def)
  have d0: "ar_event calm_arrival = WATCH_EVENT_ADD_FILE" "ar_openat calm_arrival = 3"
    "\<not> is_bootpart (ar_device calm_arrival)" "\<not> is_container (bd_format (ar_device calm_arrival))"
    by (simp_all add: calm_arrival_def plain_device_def is_bootpart_def BLOCK_FLAG_BOOTPART_def
        WATCH_EVENT_ADD_FILE_def)
  define r0 where "r0 = block_device_added netboot_host calm_arrival initial_state"
  have t0: "r0 = (ZX_OK, initial_state, [Close 3])"
  proof -
    have res: "block_device_added netboot_host calm_arrival initial_state
        = (fst r0, fst (snd r0), snd (snd r0))"
      by (simp add: r0_def)
    have "fst r0 = ZX_OK \<and> fst (snd r0) = initial_state \<and> snd (snd r0) = [Close 3]"
      using netboot_other_devices [OF n g0 res] d0 lib by simp
    then show ?thesis by (metis prod.collapse)
  qed
  have g1: "memcmp (handler_guid (ar_device bootpart_arrival))
        (GUID_INSTALL_VALUE (guids netboot_host)) GPT_GUID_LEN \<noteq> 0"
    by (simp add: handler_guid_def ioctl_block_get_type_guid_def memcmp_def
        GPT_GUID_LEN_def GUID_EMPTY_VALUE_def netboot_host_def example_guids_def
        calm_arrival_def plain_device_def bootpart_arrival_def)
  have d1: "ar_event bootpart_arrival = WATCH_EVENT_ADD_FILE" "ar_openat bootpart_arrival = 3"
    "is_bootpart (ar_device bootpart_arrival)"
    by (simp_all add: calm_arrival_def plain_device_def bootpart_arrival_def is_bootpart_def BLOCK_FLAG_BOOTPART_def
        WATCH_EVENT_ADD_FILE_def)
  define r1 where "r1 = block_device_added netboot_host bootpart_arrival initial_state"
  have t1: "r1 = (ZX_OK, initial_state, [DeviceBind 3 ''/boot/driver/bootpart.so'', Close 3])"
  proof -
    have res: "block_device_added netboot_host bootpart_arrival initial_state
        = (fst r1, fst (snd r1), snd (snd r1))"
      by (simp add: r1_def)
    have "fst r1 = ZX_OK \<and> fst (snd r1) = initial_state \<and> snd (snd r1) = [DeviceBind 3 ''/boot/driver/bootpart.so'', Close 3]"
      using netboot_other_devices [OF n g1 res] d1 lib by simp
    then show ?thesis by (metis prod.collapse)
  qed
  have g2: "memcmp (handler_guid (ar_device gpt_disk_arrival))
        (GUID_INSTALL_VALUE (guids netboot_host)) GPT_GUID_LEN \<noteq> 0"
    by (simp add: handler_guid_def ioctl_block_get_type_guid_def memcmp_def
        GPT_GUID_LEN_def GUID_EMPTY_VALUE_def netboot_host_def example_guids_def
        calm_arrival_def plain_device_def gpt_disk_arrival_def)
  have d2: "ar_event gpt_disk_arrival = WATCH_EVENT_ADD_FILE" "ar_openat gpt_disk_arrival = 3"
    "\<not> is_bootpart (ar_device gpt_disk_arrival)" "bd_format (ar_device gpt_disk_arrival) = DISK_FORMAT_GPT"
    by (simp_all add: calm_arrival_def plain_device_def gpt_disk_arrival_def is_bootpart_def BLOCK_FLAG_BOOTPART_def
        WATCH_EVENT_ADD_FILE_def)
  define r2 where "r2 = block_device_added netboot_host gpt_disk_arrival initial_state"
  have t2: "r2 = (ZX_OK, initial_state, [DeviceBind 3 ''/boot/driver/gpt.so'', Close 3])"
  proof -
    have res: "block_device_added netboot_host gpt_disk_arrival initial_state
        = (fst r2, fst (snd r2), snd (snd r2))"
      by (simp add: r2_def)
    have "fst r2 = ZX_OK \<and> fst (snd r2) = initial_state \<and> snd (snd r2) = [DeviceBind 3 ''/boot/driver/gpt.so'', Close 3]"
      using netboot_other_devices [OF n g2 res] d2 lib by simp
    then show ?thesis by (metis prod.collapse)
  qed
  have g3: "memcmp (handler_guid (ar_device fvm_arrival))
        (GUID_INSTALL_VALUE (guids netboot_host)) GPT_GUID_LEN \<noteq> 0"
    by (simp add: handler_guid_def ioctl_block_get_type_guid_def memcmp_def
        GPT_GUID_LEN_def GUID_EMPTY_VALUE_def netboot_host_def example_guids_def
        calm_arrival_def plain_device_def fvm_arrival_def)
  have d3: "ar_event fvm_arrival = WATCH_EVENT_ADD_FILE" "ar_openat fvm_arrival = 3"
    "\<not> is_bootpart (ar_device fvm_arrival)" "bd_format (ar_device fvm_arrival) = DISK_FORMAT_FVM"
    by (simp_all add: calm_arrival_def plain_device_def fvm_arrival_def is_bootpart_def BLOCK_FLAG_BOOTPART_def
        WATCH_EVENT_ADD_FILE_def)
  define r3 where "r3 = block_device_added netboot_host fvm_arrival initial_state"
  have t3: "r3 = (ZX_OK, initial_state, [DeviceBind 3 ''/boot/driver/fvm.so'', Close 3])"
  proof -
    have res: "block_device_added netboot_host fvm_arrival initial_state
        = (fst r3, fst (snd r3), snd (snd r3))"
      by (simp add: r3_def)
    have "fst r3 = ZX_OK \<and> fst (snd r3) = initial_state \<and> snd (snd r3) = [DeviceBind 3 ''/boot/driver/fvm.so'', Close 3]"
      using netboot_other_devices [OF n g3 res] d3 lib by simp
    then show ?thesis by (metis prod.collapse)
  qed
  have g4: "memcmp (handler_guid (ar_device mbr_arrival))
        (GUID_INSTALL_VALUE (guids netboot_host)) GPT_GUID_LEN \<noteq> 0"
    by (simp add: handler_guid_def ioctl_block_get_type_guid_def memcmp_def
        GPT_GUID_LEN_def GUID_EMPTY_VALUE_def netboot_host_def example_guids_def
        calm_arrival_def plain_device_def mbr_arrival_def)
  have d4: "ar_event mbr_arrival = WATCH_EVENT_ADD_FILE" "ar_openat mbr_arrival = 3"
    "\<not> is_bootpart (ar_device mbr_arrival)" "bd_format (ar_device mbr_arrival) = DISK_FORMAT_MBR"
    by (simp_all add: calm_arrival_def plain_device_def mbr_arrival_def is_bootpart_def BLOCK_FLAG_BOOTPART_def
        WATCH_EVENT_ADD_FILE_def)
  define r4 where "r4 = block_device_added netboot_host mbr_arrival initial_state"
  have t4: "r4 = (ZX_OK, initial_state, [DeviceBind 3 ''/boot/driver/mbr.so'', Close 3])"
  proof -
    have res: "block_device_added netboot_host mbr_arrival initial_state
        = (fst r4, fst (snd r4), snd (snd r4))"
      by (simp add: r4_def)
    have "fst r4 = ZX_OK \<and> fst (snd r4) = initial_state \<and> snd (snd r4) = [DeviceBind 3 ''/boot/driver/mbr.so'', Close 3]"
      using netboot_other_devices [OF n g4 res] d4 lib by simp
    then show ?thesis by (metis prod.collapse)
  qed
  have g5: "memcmp (handler_guid (ar_device zxcrypt_arrival))
        (GUID_INSTALL_VALUE (guids netboot_host)) GPT_GUID_LEN \<noteq> 0"
    by (simp add: handler_guid_def ioctl_block_get_type_guid_def memcmp_def
        GPT_GUID_LEN_def GUID_EMPTY_VALUE_def netboot_host_def example_guids_def
        calm_arrival_def plain_device_def zxcrypt_arrival_def)
  have d5: "ar_event zxcrypt_arrival = WATCH_EVENT_ADD_FILE" "ar_openat zxcrypt_arrival = 3"
    "\<not> is_bootpart (ar_device zxcrypt_arrival)" "bd_format (ar_device zxcrypt_arrival) = DISK_FORMAT_ZXCRYPT"
    by (simp_all add: calm_arrival_def plain_device_def zxcrypt_arrival_def is_bootpart_def BLOCK_FLAG_BOOTPART_def
        WATCH_EVENT_ADD_FILE_def)
  define r5 where "r5 = block_device_added netboot_host zxcrypt_arrival initial_state"
  have t5: "r5 = (ZX_OK, initial_state, [DeviceBind 3 ''/boot/driver/zxcrypt.so'', Close 3])"
  proof -
    have res: "block_device_added netboot_host zxcrypt_arrival initial_state
        = (fst r5, fst (snd r5), snd (snd r5))"
      by (simp add: r5_def)
    have "fst r5 = ZX_OK \<and> fst (snd r5) = initial_state \<and> snd (snd r5) = [DeviceBind 3 ''/boot/driver/zxcrypt.so'', Close 3]"
      using netboot_other_devices [OF n g5 res] d5 lib by simp
    then show ?thesis by (metis prod.collapse)
  qed
  have g6: "memcmp (handler_guid (ar_device removed_arrival))
        (GUID_INSTALL_VALUE (guids netboot_host)) GPT_GUID_LEN \<noteq> 0"
    by (simp add: handler_guid_def ioctl_block_get_type_guid_def memcmp_def
        GPT_GUID_LEN_def GUID_EMPTY_VALUE_def netboot_host_def example_guids_def
        calm_arrival_def plain_device_def removed_arrival_def)
  have d6: "ar_event removed_arrival \<noteq> WATCH_EVENT_ADD_FILE"
    
    by (simp_all add: calm_arrival_def plain_device_def removed_arrival_def is_bootpart_def BLOCK_FLAG_BOOTPART_def
        WATCH_EVENT_ADD_FILE_def)
  define r6 where "r6 = block_device_added netboot_host removed_arrival initial_state"
  have t6: "r6 = (ZX_OK, initial_state, [])"
  proof -
    have res: "block_device_added netboot_host removed_arrival initial_state
        = (fst r6, fst (snd r6), snd (snd r6))"
      by (simp add: r6_def)
    have "fst r6 = ZX_OK \<and> fst (snd r6) = initial_state \<and> snd (snd r6) = []"
      using netboot_other_devices [OF n g6 res] d6 lib by simp
    then show ?thesis by (metis prod.collapse)
  qed
  show ?thesis
    using n g0 t0 g1 t1 g2 t2 g3 t3 g4 t4 g5 t5 g6 t6
    unfolding r0_def r1_def r2_def r3_def r4_def r5_def r6_def by blast
qed

text \<open>
  C4 does not hold of the code: the handler leaks the device descriptor on four paths.
  Outside network-boot mode and with the integrity check off, a minfs device without a type
  GUID (\<open>mount_minfs\<close> returns \<open>ZX_ERR_INVALID_ARGS\<close>), a data device arriving when the
  data latch is set (\<open>ZX_ERR_ALREADY_BOUND\<close>), a system device under the default volume
  policy (\<open>ZX_ERR_BAD_STATE\<close>) and a blob device arriving when the blob latch is set all
  leave the handler without a single call: the descriptor \<open>3\<close> it opened is neither
  closed nor handed to \<open>mount\<close>.
\<close>

theorem handler_leaks_descriptor:
  "ar_openat calm_arrival = 3 \<and> ar_openat data_arrival = 3
   \<and> ar_openat system_arrival = 3 \<and> ar_openat blob_arrival = 3
   \<and> fst (mount_minfs plain_host calm_arrival 3
            (default_mount_options\<lparr>wait_until_ready := False\<rparr>) initial_state)
       = ZX_ERR_INVALID_ARGS
   \<and> block_device_added plain_host calm_arrival initial_state = (ZX_OK, initial_state, [])
   \<and> \<not> list_ex (releases_fd 3)
        (snd (snd (block_device_added plain_host calm_arrival initial_state)))
   \<and> fst (mount_minfs plain_host data_arrival 3
            (default_mount_options\<lparr>wait_until_ready := False\<rparr>)
            (initial_state\<lparr>data_mounted := True\<rparr>))
       = ZX_ERR_ALREADY_BOUND
   \<and> block_device_added plain_host data_arrival (initial_state\<lparr>data_mounted := True\<rparr>)
       = (ZX_OK, initial_state\<lparr>data_mounted := True\<rparr>, [])
   \<and> \<not> list_ex (releases_fd 3)
        (snd (snd (block_device_added plain_host data_arrival
                     (initial_state\<lparr>data_mounted := True\<rparr>))))
   \<and> fst (mount_minfs plain_host system_arrival 3
            (default_mount_options\<lparr>wait_until_ready := False\<rparr>) initial_state)
       = ZX_ERR_BAD_STATE
   \<and> block_device_added plain_host system_arrival initial_state = (ZX_OK, initial_state, [])
   \<and> \<not> list_ex (releases_fd 3)
        (snd (snd (block_device_added plain_host system_arrival initial_state)))
   \<and> block_device_added plain_host blob_arrival (initial_state\<lparr>blob_mounted := True\<rparr>)
       = (ZX_OK, initial_state\<lparr>blob_mounted := True\<rparr>, [])
   \<and> \<not> list_ex (releases_fd 3)
        (snd (snd (block_device_added plain_host blob_arrival
                     (initial_state\<lparr>blob_mounted := True\<rparr>))))"
  by (simp add: handler_defs path_defs example_guids_def plain_device_def calm_arrival_def
      plain_host_def data_arrival_def system_arrival_def blob_arrival_def initial_state_def)

section \<open>The role latches over a whole run\<close>

lemma mount_attempts_simps [simp]:
  "mount_attempts p [] = 0"
  "mount_attempts p (a # tr) = (if is_mount_at p a then 1 else 0) + mount_attempts p tr"
  "mount_attempts p (tr @ tr2) = mount_attempts p tr + mount_attempts p tr2"
  by (simp_all add: mount_attempts_def)

lemma pkgfs_finish_no_mount: "mount_attempts p (pkgfs_finish ar proc root) = 0"
  by (simp add: pkgfs_finish_def Let_def split: prod.splits)

lemma launch_blob_init_no_mount: "mount_attempts p (launch_blob_init cfg ar) = 0"
  by (simp add: launch_blob_init_def pkgfs_launch_def old_launch_blob_init_def Let_def
      pkgfs_finish_no_mount split: prod.splits option.splits)

lemma fshost_fsck_no_mount: "mount_attempts p (snd (fshost_fsck cfg ar dp df)) = 0"
  by (simp add: fshost_fsck_def Let_def)

lemma fat_mountpath_prefix:
  "take 5 (fst (snprintf (FDIO_MAX_FILENAME + 64) (''/fs'' @ PATH_VOLUME @ ''/fat-'' @ t)))
     = ''/fs/v''"
  by (simp add: snprintf_def FDIO_MAX_FILENAME_def PATH_VOLUME_def)

lemma fat_mountpath_not_slot:
  assumes "take 5 p \<noteq> ''/fs/v''"
  shows "fst (snprintf (FDIO_MAX_FILENAME + 64) (''/fs'' @ PATH_VOLUME @ ''/fat-'' @ t)) \<noteq> p"
  using assms fat_mountpath_prefix [of t] by auto

lemma slot_paths_not_fat:
  "take 5 (''/fs'' @ PATH_DATA) \<noteq> ''/fs/v''"
  "take 5 (''/fs'' @ PATH_INSTALL) \<noteq> ''/fs/v''"
  "take 5 (''/fs'' @ PATH_BLOB) \<noteq> ''/fs/v''"
  "take 5 (''/fs'' @ PATH_SYSTEM) \<noteq> ''/fs/v''"
  by (simp_all add: path_defs)

lemma added_fat_slots:
  assumes "added_fat cfg ar fd df s = (st, s1, tr)" "take 5 p \<noteq> ''/fs/v''"
  shows "mount_attempts p tr = 0 \<and> data_mounted s1 = data_mounted s
       \<and> install_mounted s1 = install_mounted s \<and> blob_mounted s1 = blob_mounted s"
  using assms(1) fat_mountpath_not_slot [OF assms(2)]
  by (auto simp add: added_fat_def Let_def split: prod.splits if_splits)



lemma mount_minfs_blob:
  assumes "mount_minfs cfg ar fd opts s = (st, s1, tr)"
  shows "mount_attempts (''/fs'' @ PATH_BLOB) tr = 0 \<and> blob_mounted s1 = blob_mounted s"
  using assms
  by (auto simp add: mount_minfs_def Let_def path_defs split: prod.splits option.splits if_splits)

lemma added_minfs_split:
  assumes "added_minfs cfg ar fd dp s = (st, s1, tr)"
  shows "(s1 = s \<and> mount_attempts p tr = 0)
       \<or> (\<exists>st2 tr2. mount_minfs cfg ar fd
               (default_mount_options\<lparr>wait_until_ready := False\<rparr>) s = (st2, s1, tr2)
             \<and> mount_attempts p tr = mount_attempts p tr2)"
proof (cases "fshost_fsck cfg ar dp DISK_FORMAT_MINFS")
  case (Pair fs ftr)
  have z: "mount_attempts p ftr = 0"
    using fshost_fsck_no_mount [of p cfg ar dp DISK_FORMAT_MINFS] Pair by simp
  show ?thesis
  proof (cases "fs = ZX_OK")
    case True
    obtain st2 s2 tr2 where mm: "mount_minfs cfg ar fd
        (default_mount_options\<lparr>wait_until_ready := False\<rparr>) s = (st2, s2, tr2)"
      by (metis prod_cases3)
    have "s1 = s2" "tr = ftr @ tr2"
      using assms Pair True mm by (simp_all add: added_minfs_def Let_def)
    then show ?thesis using mm z by simp
  next
    case False
    then show ?thesis using assms Pair z by (auto simp add: added_minfs_def)
  qed
qed


lemma added_blobfs_blob:
  assumes "added_blobfs cfg ar fd dp g s = (st, s1, tr)"
  shows "(blob_mounted s \<longrightarrow>
            blob_mounted s1 \<and> mount_attempts (''/fs'' @ PATH_BLOB) tr = 0)
       \<and> (\<not> blob_mounted s \<and> blob_mounted s1 \<longrightarrow>
            (\<exists>opts. Mount fd (''/fs'' @ PATH_BLOB) DISK_FORMAT_BLOBFS opts launch_blobfs ZX_OK
               \<in> set tr))"
proof (cases "fshost_fsck cfg ar dp DISK_FORMAT_BLOBFS")
  case (Pair fs ftr)
  have z: "mount_attempts (''/fs'' @ PATH_BLOB) ftr = 0"
    using fshost_fsck_no_mount [of _ cfg ar dp DISK_FORMAT_BLOBFS] Pair by simp
  show ?thesis using assms Pair z
    by (auto simp add: added_blobfs_def Let_def launch_blob_init_no_mount split: if_splits)
qed













section \<open>The blob latch\<close>

lemma block_device_added_blob:
  assumes a: "block_device_added cfg ar s = (st, s1, tr)"
  shows "(blob_mounted s \<longrightarrow>
            blob_mounted s1 \<and> mount_attempts (''/fs'' @ PATH_BLOB) tr = 0)
       \<and> (\<not> blob_mounted s \<and> blob_mounted s1 \<longrightarrow>
            list_ex (is_ok_mount_at (''/fs'' @ PATH_BLOB)) tr)"
  using block_device_added_shape [OF a]
proof (elim disjE conjE exE)
  fix st2 assume "mount_minfs cfg ar (ar_openat ar)
            (default_mount_options\<lparr>wait_until_ready := False\<rparr>) s = (st2, s1, tr)"
  from mount_minfs_blob [OF this] show ?thesis by simp
next
  fix g assume "added_blobfs cfg ar (ar_openat ar) (PATH_DEV_BLOCK @ ''/'' @ ar_name ar) g s = (st, s1, tr)"
  from added_blobfs_blob [OF this] show ?thesis
    by (auto simp add: list_ex_iff intro!: bexI)
next
  assume "added_minfs cfg ar (ar_openat ar) (PATH_DEV_BLOCK @ ''/'' @ ar_name ar) s = (st, s1, tr)"
  from added_minfs_split [OF this, of "''/fs'' @ PATH_BLOB"] show ?thesis
    using mount_minfs_blob by (elim disjE exE conjE) (simp, metis)
next
  assume "added_fat cfg ar (ar_openat ar) DISK_FORMAT_FAT s = (st, s1, tr)"
  from added_fat_slots [OF this slot_paths_not_fat(3)] show ?thesis by simp
qed auto

lemma watch_blob:
  "blob_mounted s \<Longrightarrow>
     mount_attempts (''/fs'' @ PATH_BLOB) (snd (fdio_watch_directory cfg ars s)) = 0
     \<and> blob_mounted (fst (fdio_watch_directory cfg ars s))"
proof (induction ars arbitrary: s)
  case Nil
  then show ?case by simp
next
  case (Cons ar ars)
  obtain st s1 tr where h: "block_device_added cfg ar s = (st, s1, tr)"
    by (metis prod_cases3)
  note d = block_device_added_blob [OF h]
  show ?case
  proof (cases "st = ZX_OK")
    case True
    obtain s2 tr2 where r: "fdio_watch_directory cfg ars s1 = (s2, tr2)"
      by (metis prod.collapse)
    from Cons.IH [of s1] r d Cons.prems show ?thesis using h True by auto
  next
    case False
    then show ?thesis using h d Cons.prems by auto
  qed
qed

lemma valid_blob_device_added:
  assumes v: "valid_blob_device cfg ar" and l: "\<not> blob_mounted s"
  shows "block_device_added cfg ar s =
     (if ar_mount ar \<noteq> ZX_OK
      then (ZX_OK, s,
            snd (fshost_fsck cfg ar (PATH_DEV_BLOCK @ ''/'' @ ar_name ar) DISK_FORMAT_BLOBFS)
            @ [blob_mount_call ar])
      else (ZX_OK, s\<lparr>blob_mounted := True\<rparr>,
            snd (fshost_fsck cfg ar (PATH_DEV_BLOCK @ ''/'' @ ar_name ar) DISK_FORMAT_BLOBFS)
            @ [blob_mount_call ar] @ launch_blob_init cfg ar))"
proof -
  obtain ftr where f: "fshost_fsck cfg ar (PATH_DEV_BLOCK @ ''/'' @ ar_name ar)
      DISK_FORMAT_BLOBFS = (ZX_OK, ftr)"
    using v by (metis valid_blob_device_def prod.collapse)
  have b: "added_blobfs cfg ar (ar_openat ar) (PATH_DEV_BLOCK @ ''/'' @ ar_name ar)
      (handler_guid (ar_device ar)) s =
     (if ar_mount ar \<noteq> ZX_OK then (ZX_OK, s, ftr @ [blob_mount_call ar])
      else (ZX_OK, s\<lparr>blob_mounted := True\<rparr>,
            ftr @ [blob_mount_call ar] @ launch_blob_init cfg ar))"
    using v l f by (simp add: added_blobfs_def valid_blob_device_def Let_def blob_mount_call_def)
  show ?thesis
    using v b f
    by (auto simp add: block_device_added_def valid_blob_device_def Let_def is_bootpart_def
        handler_guid_def split: option.splits)
qed


text \<open>
  C2. The blob latch goes from clear to set only in a handler run that made a successful
  mount call at the blob path. A valid blob device arriving while the latch is clear is
  mounted; if that mount fails the latch stays clear and nothing else happens; if it succeeds
  the latch is set and the package-filesystem bootstrap is launched at once. So a blob device
  whose mount fails, followed by a valid blob device whose mount succeeds, ends with the
  second device mounted and the bootstrap launched. Once the latch is set it stays set, no
  later event reaches a mount call at the blob path, and a blobfs device arriving outside
  network-boot mode causes no mount call at all.
\<close>

theorem blob_latch:
  "(block_device_added cfg ar s = (st, s1, tr) \<and> \<not> blob_mounted s \<and> blob_mounted s1 \<longrightarrow>
      list_ex (is_ok_mount_at (''/fs'' @ PATH_BLOB)) tr)
   \<and> (valid_blob_device cfg ar \<and> \<not> blob_mounted s \<and> ar_mount ar \<noteq> ZX_OK \<longrightarrow>
        block_device_added cfg ar s
          = (ZX_OK, s,
             snd (fshost_fsck cfg ar (PATH_DEV_BLOCK @ ''/'' @ ar_name ar) DISK_FORMAT_BLOBFS)
             @ [blob_mount_call ar]))
   \<and> (valid_blob_device cfg ar \<and> \<not> blob_mounted s \<and> ar_mount ar = ZX_OK \<longrightarrow>
        block_device_added cfg ar s
          = (ZX_OK, s\<lparr>blob_mounted := True\<rparr>,
             snd (fshost_fsck cfg ar (PATH_DEV_BLOCK @ ''/'' @ ar_name ar) DISK_FORMAT_BLOBFS)
             @ [blob_mount_call ar] @ launch_blob_init cfg ar))
   \<and> (valid_blob_device cfg ar \<and> valid_blob_device cfg later \<and> \<not> blob_mounted s
        \<and> ar_mount ar \<noteq> ZX_OK \<and> ar_mount later = ZX_OK \<longrightarrow>
        fdio_watch_directory cfg [ar, later] s
          = (s\<lparr>blob_mounted := True\<rparr>,
             snd (fshost_fsck cfg ar (PATH_DEV_BLOCK @ ''/'' @ ar_name ar) DISK_FORMAT_BLOBFS)
             @ [blob_mount_call ar]
             @ snd (fshost_fsck cfg later (PATH_DEV_BLOCK @ ''/'' @ ar_name later)
                      DISK_FORMAT_BLOBFS)
             @ [blob_mount_call later] @ launch_blob_init cfg later))
   \<and> (blob_mounted s \<longrightarrow>
        mount_attempts (''/fs'' @ PATH_BLOB) (snd (fdio_watch_directory cfg ars s)) = 0
        \<and> blob_mounted (fst (fdio_watch_directory cfg ars s)))
   \<and> (blob_mounted s \<and> \<not> netboot cfg \<and> bd_format (ar_device ar) = DISK_FORMAT_BLOBFS
        \<and> block_device_added cfg ar s = (st, s1, tr) \<longrightarrow>
        \<not> list_ex is_mount tr)"
proof (intro conjI impI)
  assume "block_device_added cfg ar s = (st, s1, tr) \<and> \<not> blob_mounted s \<and> blob_mounted s1"
  then show "list_ex (is_ok_mount_at (''/fs'' @ PATH_BLOB)) tr"
    using block_device_added_blob [of cfg ar s st s1 tr] by simp
next
  assume "valid_blob_device cfg ar \<and> \<not> blob_mounted s \<and> ar_mount ar \<noteq> ZX_OK"
  then show "block_device_added cfg ar s
          = (ZX_OK, s,
             snd (fshost_fsck cfg ar (PATH_DEV_BLOCK @ ''/'' @ ar_name ar) DISK_FORMAT_BLOBFS)
             @ [blob_mount_call ar])"
    using valid_blob_device_added [of cfg ar s] by simp
next
  assume "valid_blob_device cfg ar \<and> \<not> blob_mounted s \<and> ar_mount ar = ZX_OK"
  then show "block_device_added cfg ar s
          = (ZX_OK, s\<lparr>blob_mounted := True\<rparr>,
             snd (fshost_fsck cfg ar (PATH_DEV_BLOCK @ ''/'' @ ar_name ar) DISK_FORMAT_BLOBFS)
             @ [blob_mount_call ar] @ launch_blob_init cfg ar)"
    using valid_blob_device_added [of cfg ar s] by simp
next
  assume "valid_blob_device cfg ar \<and> valid_blob_device cfg later \<and> \<not> blob_mounted s
        \<and> ar_mount ar \<noteq> ZX_OK \<and> ar_mount later = ZX_OK"
  then show "fdio_watch_directory cfg [ar, later] s
          = (s\<lparr>blob_mounted := True\<rparr>,
             snd (fshost_fsck cfg ar (PATH_DEV_BLOCK @ ''/'' @ ar_name ar) DISK_FORMAT_BLOBFS)
             @ [blob_mount_call ar]
             @ snd (fshost_fsck cfg later (PATH_DEV_BLOCK @ ''/'' @ ar_name later)
                      DISK_FORMAT_BLOBFS)
             @ [blob_mount_call later] @ launch_blob_init cfg later)"
    using valid_blob_device_added [of cfg ar s] valid_blob_device_added [of cfg later s]
    by simp
next
  assume "blob_mounted s"
  then show "mount_attempts (''/fs'' @ PATH_BLOB) (snd (fdio_watch_directory cfg ars s)) = 0"
    "blob_mounted (fst (fdio_watch_directory cfg ars s))"
    using watch_blob [of s cfg ars] by simp_all
next
  assume a: "blob_mounted s \<and> \<not> netboot cfg \<and> bd_format (ar_device ar) = DISK_FORMAT_BLOBFS
        \<and> block_device_added cfg ar s = (st, s1, tr)"
  have f: "\<not> list_ex is_mount
      (snd (fshost_fsck cfg ar (PATH_DEV_BLOCK @ ''/'' @ ar_name ar) DISK_FORMAT_BLOBFS))"
    by (simp add: fshost_fsck_def Let_def)
  from a f show "\<not> list_ex is_mount tr"
    by (auto simp add: block_device_added_def added_blobfs_def Let_def
        split: if_splits option.splits prod.splits)
qed

theorem blob_latch_witness:
  "valid_blob_device pkgfs_host failing_blob_arrival
   \<and> valid_blob_device pkgfs_host second_blob_arrival
   \<and> ar_mount failing_blob_arrival \<noteq> ZX_OK \<and> ar_mount second_blob_arrival = ZX_OK
   \<and> fdio_watch_directory pkgfs_host [failing_blob_arrival, second_blob_arrival] initial_state
       = (initial_state\<lparr>blob_mounted := True\<rparr>,
          [Mount 3 ''/fs/blob'' DISK_FORMAT_BLOBFS default_mount_options launch_blobfs
             ZX_ERR_BAD_STATE,
           Mount 4 ''/fs/blob'' DISK_FORMAT_BLOBFS default_mount_options launch_blobfs ZX_OK,
           OpenDir ''/fs/blob'' 6, LaunchCmdline ''bin/pkgsvr'' 6 11 ZX_OK,
           WaitOne 12 (ZX_USER_SIGNAL_0 OR ZX_PROCESS_TERMINATED) 5,
           Install ''/pkgfs'' 10 ZX_OK, OpenAt 10 ''system'' 21 ZX_OK,
           Install ''/system'' 20 ZX_OK, FuchsiaStart])
   \<and> mount_attempts (''/fs'' @ PATH_BLOB)
        (snd (fdio_watch_directory pkgfs_host [blob_arrival, second_blob_arrival]
                (initial_state\<lparr>blob_mounted := True\<rparr>))) = 0
   \<and> list_ex (is_ok_mount_at (''/fs'' @ PATH_BLOB))
        (snd (snd (block_device_added pkgfs_host second_blob_arrival initial_state)))
   \<and> \<not> list_ex is_mount
        (snd (snd (block_device_added pkgfs_host blob_arrival
                     (initial_state\<lparr>blob_mounted := True\<rparr>))))"
proof -
  have v: "valid_blob_device pkgfs_host failing_blob_arrival"
    "valid_blob_device pkgfs_host second_blob_arrival"
    by (simp_all add: valid_blob_device_def handler_defs is_bootpart_def handler_guid_def
        example_guids_def plain_device_def calm_arrival_def blob_arrival_def pkgfs_host_def
        failing_blob_arrival_def second_blob_arrival_def)
  have m: "ar_mount failing_blob_arrival \<noteq> ZX_OK" "ar_mount second_blob_arrival = ZX_OK"
    "\<not> blob_mounted initial_state"
    "blob_mounted (initial_state\<lparr>blob_mounted := True\<rparr>)"
    by (simp_all add: example_guids_def plain_device_def calm_arrival_def blob_arrival_def
        pkgfs_host_def failing_blob_arrival_def second_blob_arrival_def initial_state_def
        zx_status_defs)
  have f: "\<And>a p d. snd (fshost_fsck pkgfs_host a p d) = []"
    by (simp add: fshost_fsck_def pkgfs_host_def)
  have c: "blob_mount_call failing_blob_arrival
      = Mount 3 ''/fs/blob'' DISK_FORMAT_BLOBFS default_mount_options launch_blobfs
             ZX_ERR_BAD_STATE"
    "blob_mount_call second_blob_arrival
      = Mount 4 ''/fs/blob'' DISK_FORMAT_BLOBFS default_mount_options launch_blobfs ZX_OK"
    by (simp_all add: blob_mount_call_def example_guids_def plain_device_def calm_arrival_def
        blob_arrival_def pkgfs_host_def failing_blob_arrival_def second_blob_arrival_def
        PATH_BLOB_def)
  have i: "launch_blob_init pkgfs_host second_blob_arrival
      = [OpenDir ''/fs/blob'' 6, LaunchCmdline ''bin/pkgsvr'' 6 11 ZX_OK,
           WaitOne 12 (ZX_USER_SIGNAL_0 OR ZX_PROCESS_TERMINATED) 5,
           Install ''/pkgfs'' 10 ZX_OK, OpenAt 10 ''system'' 21 ZX_OK,
           Install ''/system'' 20 ZX_OK, FuchsiaStart]"
    by (simp add: launch_blob_init_def pkgfs_launch_def pkgfs_finish_def Let_def
        example_guids_def plain_device_def calm_arrival_def blob_arrival_def pkgfs_host_def
        failing_blob_arrival_def second_blob_arrival_def signal_defs zx_status_defs)
  note t = blob_latch [where cfg = pkgfs_host and ar = failing_blob_arrival
      and later = second_blob_arrival and s = initial_state]
  have w: "fdio_watch_directory pkgfs_host [failing_blob_arrival, second_blob_arrival]
        initial_state
      = (initial_state\<lparr>blob_mounted := True\<rparr>,
         snd (fshost_fsck pkgfs_host failing_blob_arrival
                (PATH_DEV_BLOCK @ ''/'' @ ar_name failing_blob_arrival) DISK_FORMAT_BLOBFS)
         @ [blob_mount_call failing_blob_arrival]
         @ snd (fshost_fsck pkgfs_host second_blob_arrival
                  (PATH_DEV_BLOCK @ ''/'' @ ar_name second_blob_arrival) DISK_FORMAT_BLOBFS)
         @ [blob_mount_call second_blob_arrival]
         @ launch_blob_init pkgfs_host second_blob_arrival)"
    using t v m by blast
  have z: "mount_attempts (''/fs'' @ PATH_BLOB)
        (snd (fdio_watch_directory pkgfs_host [blob_arrival, second_blob_arrival]
                (initial_state\<lparr>blob_mounted := True\<rparr>))) = 0"
    using blob_latch [where cfg = pkgfs_host
        and s = "initial_state\<lparr>blob_mounted := True\<rparr>"
        and ars = "[blob_arrival, second_blob_arrival]"] m(4)
    by blast
  have w2: "fdio_watch_directory pkgfs_host [failing_blob_arrival, second_blob_arrival]
        initial_state
       = (initial_state\<lparr>blob_mounted := True\<rparr>,
          [Mount 3 ''/fs/blob'' DISK_FORMAT_BLOBFS default_mount_options launch_blobfs
             ZX_ERR_BAD_STATE,
           Mount 4 ''/fs/blob'' DISK_FORMAT_BLOBFS default_mount_options launch_blobfs ZX_OK,
           OpenDir ''/fs/blob'' 6, LaunchCmdline ''bin/pkgsvr'' 6 11 ZX_OK,
           WaitOne 12 (ZX_USER_SIGNAL_0 OR ZX_PROCESS_TERMINATED) 5,
           Install ''/pkgfs'' 10 ZX_OK, OpenAt 10 ''system'' 21 ZX_OK,
           Install ''/system'' 20 ZX_OK, FuchsiaStart])"
    by (subst w) (simp add: f c i)
  define r where "r = block_device_added pkgfs_host second_blob_arrival initial_state"
  have res: "block_device_added pkgfs_host second_blob_arrival initial_state
      = (fst r, fst (snd r), snd (snd r))"
    by (simp add: r_def)
  have set1: "blob_mounted (fst (snd r))"
    using blob_latch [where cfg = pkgfs_host and ar = second_blob_arrival
        and s = initial_state] v(2) m(2,3)
    by (simp add: r_def)
  have ok: "list_ex (is_ok_mount_at (''/fs'' @ PATH_BLOB)) (snd (snd r))"
    using blob_latch [where cfg = pkgfs_host and ar = second_blob_arrival
        and s = initial_state and st = "fst r" and ?s1.0 = "fst (snd r)"
        and tr = "snd (snd r)"] res m(3) set1
    by blast
  define q where "q = block_device_added pkgfs_host blob_arrival
      (initial_state\<lparr>blob_mounted := True\<rparr>)"
  have resq: "block_device_added pkgfs_host blob_arrival
      (initial_state\<lparr>blob_mounted := True\<rparr>) = (fst q, fst (snd q), snd (snd q))"
    by (simp add: q_def)
  have bq: "\<not> netboot pkgfs_host" "bd_format (ar_device blob_arrival) = DISK_FORMAT_BLOBFS"
    by (simp_all add: pkgfs_host_def blob_arrival_def)
  have nm: "\<not> list_ex is_mount (snd (snd q))"
    using blob_latch [where cfg = pkgfs_host and ar = blob_arrival
        and s = "initial_state\<lparr>blob_mounted := True\<rparr>" and st = "fst q"
        and ?s1.0 = "fst (snd q)" and tr = "snd (snd q)"] resq m(4) bq
    by blast
  show ?thesis
    using v m(1,2) z w2 ok nm unfolding r_def q_def by blast
qed

section \<open>FAT volumes\<close>

lemma undigits_snoc: "undigits (cs @ [c]) = 10 * undigits cs + (of_char c - 48)"
  by (simp add: undigits_def)

lemma undigits_digits10: "undigits (digits10 n) = n"
proof (induction n rule: digits10.induct)
  case (1 n)
  show ?case
  proof (cases "n < 10")
    case True
    then show ?thesis
      by (subst digits10.simps) (simp add: undigits_def)
  next
    case False
    have m: "(48 + n mod 10) mod 256 = 48 + n mod 10"
      by (rule mod_less) (use mod_less_divisor [of 10 n] in linarith)
    from False "1.IH" show ?thesis
      by (subst digits10.simps) (simp add: undigits_snoc m)
  qed
qed

lemma digits10_inj: "digits10 m = digits10 n \<Longrightarrow> m = n"
  by (metis undigits_digits10)

lemma length_digits10: "n < 10 ^ k \<Longrightarrow> 0 < k \<Longrightarrow> length (digits10 n) \<le> k"
proof (induction n arbitrary: k rule: digits10.induct)
  case (1 n)
  show ?case
  proof (cases "n < 10")
    case True
    then show ?thesis using "1.prems" by (subst digits10.simps) simp
  next
    case False
    obtain j where k: "k = Suc j" using "1.prems"(2) by (cases k) auto
    have "j \<noteq> 0" using False "1.prems"(1) k by (cases j) auto
    moreover have "n div 10 < 10 ^ j" using "1.prems"(1) k by (simp add: less_mult_imp_div_less)
    ultimately have "length (digits10 (n div 10)) \<le> j"
      using "1.IH" [OF False, of j] by simp
    then show ?thesis using False k by (subst digits10.simps) simp
  qed
qed

lemma fat_mountpath_plain:
  assumes "0 \<le> k" "k < 2 ^ 31"
  shows "fat_mountpath k = ''/fs/volume/fat-'' @ digits10 (nat k)"
proof -
  have "nat k < 10 ^ 10" using assms by simp
  then have "length (digits10 (nat k)) \<le> 10" by (rule length_digits10) simp
  then show ?thesis using assms
    by (simp add: fat_mountpath_def snprintf_def printf_d_def FDIO_MAX_FILENAME_def
        PATH_VOLUME_def)
qed

lemma fat_mountpath_inj:
  assumes "0 \<le> i" "i < 2 ^ 31" "0 \<le> j" "j < 2 ^ 31" "fat_mountpath i = fat_mountpath j"
  shows "i = j"
proof -
  have "digits10 (nat i) = digits10 (nat j)"
    using assms by (simp add: fat_mountpath_plain)
  then have "nat i = nat j" by (rule digits10_inj)
  then show ?thesis using assms by simp
qed

lemma fat_mount_paths_append [simp]:
  "fat_mount_paths (tr @ tr2) = fat_mount_paths tr @ fat_mount_paths tr2"
  by (induction tr rule: fat_mount_paths.induct) simp_all

lemma pkgfs_finish_no_fat: "fat_mount_paths (pkgfs_finish ar proc root) = []"
  by (simp add: pkgfs_finish_def Let_def split: prod.splits)

lemma launch_blob_init_no_fat: "fat_mount_paths (launch_blob_init cfg ar) = []"
  by (simp add: launch_blob_init_def pkgfs_launch_def old_launch_blob_init_def Let_def
      pkgfs_finish_no_fat split: prod.splits option.splits)

lemma fshost_fsck_no_fat: "fat_mount_paths (snd (fshost_fsck cfg ar dp df)) = []"
  by (simp add: fshost_fsck_def Let_def)

lemma mount_minfs_no_fat:
  assumes "mount_minfs cfg ar fd opts s = (st, s1, tr)"
  shows "fat_mount_paths tr = [] \<and> fat_counter s1 = fat_counter s"
  using assms
  by (auto simp add: mount_minfs_def Let_def split: prod.splits option.splits if_splits)

lemma added_minfs_no_fat:
  assumes "added_minfs cfg ar fd dp s = (st, s1, tr)"
  shows "fat_mount_paths tr = [] \<and> fat_counter s1 = fat_counter s"
proof (cases "fshost_fsck cfg ar dp DISK_FORMAT_MINFS")
  case (Pair fs ftr)
  have z: "fat_mount_paths ftr = []"
    using fshost_fsck_no_fat [of cfg ar dp DISK_FORMAT_MINFS] Pair by simp
  obtain st2 s2 tr2 where mm: "mount_minfs cfg ar fd
      (default_mount_options\<lparr>wait_until_ready := False\<rparr>) s = (st2, s2, tr2)"
    by (metis prod_cases3)
  show ?thesis
    using assms Pair z mm mount_minfs_no_fat [OF mm]
    by (auto simp add: added_minfs_def Let_def split: if_splits)
qed

lemma added_blobfs_no_fat:
  assumes "added_blobfs cfg ar fd dp g s = (st, s1, tr)"
  shows "fat_mount_paths tr = [] \<and> fat_counter s1 = fat_counter s"
proof (cases "fshost_fsck cfg ar dp DISK_FORMAT_BLOBFS")
  case (Pair fs ftr)
  have z: "fat_mount_paths ftr = []"
    using fshost_fsck_no_fat [of cfg ar dp DISK_FORMAT_BLOBFS] Pair by simp
  show ?thesis using assms Pair z
    by (auto simp add: added_blobfs_def Let_def launch_blob_init_no_fat split: if_splits)
qed

lemma efi_test:
  "(case ioctl_block_get_type_guid d uninit_guid of
      (r, guid) \<Rightarrow> gpt_is_efi_guid (guids cfg) guid r) = has_efi_guid cfg d"
  by (simp add: ioctl_block_get_type_guid_def gpt_is_efi_guid_def has_efi_guid_def
      ZX_ERR_NOT_SUPPORTED_def GPT_GUID_LEN_def split: option.splits)

lemma added_fat_eq:
  "added_fat cfg ar fd df s =
     (if has_efi_guid cfg (ar_device ar) then (ZX_OK, s, [Close fd])
      else (ZX_OK, s\<lparr>fat_counter := fat_counter s + 1\<rparr>,
            [Mount fd (fat_mountpath (sint (fat_counter s))) df
               \<lparr>readonly = False, wait_until_ready = False, create_mountpoint = True\<rparr>
               launch_fat (ar_mount ar)]))"
  using efi_test [where d = "ar_device ar" and cfg = cfg]
  by (auto simp add: added_fat_def Let_def fat_mountpath_def default_mount_options_def
      split: prod.splits)

lemma block_device_added_fat_step:
  assumes a: "block_device_added cfg ar s = (st, s1, tr)"
  shows "(fat_mount_paths tr = [] \<and> fat_counter s1 = fat_counter s)
       \<or> (fat_mount_paths tr = [fat_mountpath (sint (fat_counter s))]
          \<and> fat_counter s1 = fat_counter s + 1 \<and> \<not> netboot cfg)"
  using block_device_added_shape [OF a]
proof (elim disjE conjE exE)
  fix st2 assume "mount_minfs cfg ar (ar_openat ar)
            (default_mount_options\<lparr>wait_until_ready := False\<rparr>) s = (st2, s1, tr)"
  from mount_minfs_no_fat [OF this] show ?thesis by simp
next
  fix g assume "added_blobfs cfg ar (ar_openat ar) (PATH_DEV_BLOCK @ ''/'' @ ar_name ar) g s = (st, s1, tr)"
  from added_blobfs_no_fat [OF this] show ?thesis by simp
next
  assume "added_minfs cfg ar (ar_openat ar) (PATH_DEV_BLOCK @ ''/'' @ ar_name ar) s = (st, s1, tr)"
  from added_minfs_no_fat [OF this] show ?thesis by simp
next
  assume f: "added_fat cfg ar (ar_openat ar) DISK_FORMAT_FAT s = (st, s1, tr)"
  show ?thesis
  proof (cases "netboot cfg")
    case False
    with f show ?thesis by (auto simp add: added_fat_eq split: if_splits)
  next
    case True
    obtain st2 s2 tr2 where mm: "mount_minfs cfg ar (ar_openat ar)
        (default_mount_options\<lparr>wait_until_ready := False\<rparr>) s = (st2, s2, tr2)"
      by (metis prod_cases3)
    have "fat_mount_paths tr = [] \<and> fat_counter s1 = fat_counter s"
      using a True mm mount_minfs_no_fat [OF mm]
      by (auto simp add: block_device_added_def Let_def
          split: if_splits option.splits disk_format_t.splits)
    then show ?thesis by simp
  qed
qed auto

text \<open>The increment of the counter below \<open>INT_MAX\<close> is the increment of its value.\<close>

lemma sint_succ:
  assumes "sint (c :: 32 word) < 2 ^ 31 - 1"
  shows "sint (c + 1) = sint c + 1"
proof -
  have lo: "- (2 ^ 31) \<le> sint c"
    using sint_ge [of c] by simp
  have "sint (c + 1) = signed_take_bit 31 (sint c + 1)"
    by (simp add: sint_word_ariths)
  also have "\<dots> = sint c + 1"
    by (rule signed_take_bit_int_eq_self) (use lo assms in simp_all)
  finally show ?thesis .
qed

lemma watch_fat:
  assumes "0 \<le> sint (fat_counter s)" "sint (fat_counter s) + int (length ars) < 2 ^ 31"
    and "fdio_watch_directory cfg ars s = (s2, tr)"
  shows "distinct (fat_mount_paths tr)
       \<and> (\<forall>p \<in> set (fat_mount_paths tr).
            \<exists>k. sint (fat_counter s) \<le> k \<and> k < sint (fat_counter s2)
              \<and> p = fat_mountpath k)
       \<and> sint (fat_counter s) \<le> sint (fat_counter s2)
       \<and> sint (fat_counter s2) \<le> sint (fat_counter s) + int (length ars)"
  using assms
proof (induction ars arbitrary: s s2 tr)
  case Nil
  then show ?case by simp
next
  case (Cons ar ars)
  obtain st s1 tr1 where h: "block_device_added cfg ar s = (st, s1, tr1)"
    by (metis prod_cases3)
  note step = block_device_added_fat_step [OF h]
  have room: "sint (fat_counter s) < 2 ^ 31 - 1"
    using Cons.prems(2) by simp
  note succ = sint_succ [OF room]
  show ?case
  proof (cases "st = ZX_OK")
    case False
    then have e: "s2 = s1" "tr = tr1" using Cons.prems(3) h by simp_all
    from step succ show ?thesis unfolding e by auto
  next
    case True
    obtain s3 tr3 where r: "fdio_watch_directory cfg ars s1 = (s3, tr3)"
      by (metis prod.collapse)
    have e: "s2 = s3" "tr = tr1 @ tr3" using Cons.prems(3) h True r by simp_all
    have b: "0 \<le> sint (fat_counter s1)"
      "sint (fat_counter s1) + int (length ars) < 2 ^ 31"
      using step succ Cons.prems(1,2) by auto
    note ih = Cons.IH [OF b r]
    from step show ?thesis
    proof (elim disjE conjE)
      assume "fat_mount_paths tr1 = []" "fat_counter s1 = fat_counter s"
      then show ?thesis using ih unfolding e by auto
    next
      assume p: "fat_mount_paths tr1 = [fat_mountpath (sint (fat_counter s))]"
        and c0: "fat_counter s1 = fat_counter s + 1"
      have c: "sint (fat_counter s1) = sint (fat_counter s) + 1"
        using c0 succ by simp
      have fresh: "fat_mountpath (sint (fat_counter s)) \<notin> set (fat_mount_paths tr3)"
      proof
        assume "fat_mountpath (sint (fat_counter s)) \<in> set (fat_mount_paths tr3)"
        then obtain k where k: "sint (fat_counter s1) \<le> k" "k < sint (fat_counter s3)"
          "fat_mountpath (sint (fat_counter s)) = fat_mountpath k"
          using ih by blast
        have "k < 2 ^ 31" using k(2) ih b(2) by linarith
        moreover have "0 \<le> k" using k(1) b(1) by linarith
        moreover have "sint (fat_counter s) < 2 ^ 31" using room by simp
        ultimately have "sint (fat_counter s) = k"
          using fat_mountpath_inj [OF Cons.prems(1) _ _ _ k(3)] by simp
        then show False using k(1) c by simp
      qed
      have members: "\<forall>p \<in> set (fat_mount_paths tr3).
            \<exists>k. sint (fat_counter s) \<le> k \<and> k < sint (fat_counter s3)
              \<and> p = fat_mountpath k"
      proof
        fix p assume "p \<in> set (fat_mount_paths tr3)"
        then obtain k where "sint (fat_counter s1) \<le> k" "k < sint (fat_counter s3)"
          "p = fat_mountpath k"
          using ih by blast
        then show "\<exists>k. sint (fat_counter s) \<le> k \<and> k < sint (fat_counter s3)
              \<and> p = fat_mountpath k"
          using c by (intro exI [of _ k]) simp
      qed
      have lt: "sint (fat_counter s) < sint (fat_counter s3)" using ih c by linarith
      have up: "sint (fat_counter s3) \<le> sint (fat_counter s) + int (length (ar # ars))"
        using ih c by simp
      show ?thesis unfolding e using p ih fresh members lt up by auto
    qed
  qed
qed

lemma watch_netboot_no_fat:
  "netboot cfg \<Longrightarrow>
     fat_mount_paths (snd (fdio_watch_directory cfg ars s)) = []
     \<and> fat_counter (fst (fdio_watch_directory cfg ars s)) = fat_counter s"
proof (induction ars arbitrary: s)
  case Nil
  show ?case by simp
next
  case (Cons ar ars)
  obtain st s1 tr1 where h: "block_device_added cfg ar s = (st, s1, tr1)"
    by (metis prod_cases3)
  have step: "fat_mount_paths tr1 = [] \<and> fat_counter s1 = fat_counter s"
    using block_device_added_fat_step [OF h] Cons.prems by auto
  obtain s3 tr3 where r: "fdio_watch_directory cfg ars s1 = (s3, tr3)"
    by (metis prod.collapse)
  show ?case using h r step Cons.IH [OF Cons.prems, of s1] by (auto split: if_splits)
qed

lemma efi_device_guid:
  assumes "has_efi_guid cfg d"
    and "memcmp (GUID_EFI_VALUE (guids cfg)) (GUID_INSTALL_VALUE (guids cfg)) GPT_GUID_LEN \<noteq> 0"
  shows "memcmp (handler_guid d) (GUID_INSTALL_VALUE (guids cfg)) GPT_GUID_LEN \<noteq> 0"
  using assms
  by (auto simp add: has_efi_guid_def handler_guid_def ioctl_block_get_type_guid_def
      memcmp_def split: option.splits if_splits)

text \<open>
  C8, as stated, fails. In network-boot mode a FAT-formatted device without a type GUID is
  not mounted: the handler closes it and returns.
\<close>

theorem netboot_fat_not_mounted_counterexample:
  "netboot netboot_host
   \<and> bd_format (ar_device fat_arrival) = DISK_FORMAT_FAT
   \<and> bd_type_guid (ar_device fat_arrival) = None
   \<and> \<not> has_efi_guid netboot_host (ar_device fat_arrival)
   \<and> block_device_added netboot_host fat_arrival initial_state
       = (ZX_OK, initial_state, [Close 3])
   \<and> fat_mount_paths [Close 3] = []"
  by (simp add: handler_defs path_defs example_guids_def plain_device_def calm_arrival_def
      netboot_host_def fat_arrival_def has_efi_guid_def)

text \<open>
  C8, amended. Outside network-boot mode, for a device that opens and is not flagged as a
  boot partition: a FAT-formatted device whose type GUID is the EFI identifier is closed and
  not mounted; a FAT-formatted device with any other or no type GUID is mounted at
  \<open>/fs/volume/fat-<n>\<close>, where \<open>n\<close> is the value of the counter, which is then
  incremented (as a 32-bit \<open>int\<close>); the mount creates the mount point and does not block
  on readiness. One event either leaves the counter alone and makes no FAT mount, or makes
  one FAT mount and increments the counter. In a run that starts with a non-negative counter
  and does not take it past \<open>2147483647\<close>, the counter never decreases and the FAT
  mounts use pairwise distinct paths. In any mode a FAT-formatted EFI device is never
  mounted, provided the EFI and install identifiers differ. In network-boot mode no device
  is mounted through the FAT path and the counter does not move.
\<close>

theorem fat_volumes:
  "(\<not> netboot cfg \<and> ar_event ar = WATCH_EVENT_ADD_FILE \<and> 0 \<le> ar_openat ar
      \<and> \<not> is_bootpart (ar_device ar) \<and> bd_format (ar_device ar) = DISK_FORMAT_FAT
      \<and> has_efi_guid cfg (ar_device ar) \<longrightarrow>
      block_device_added cfg ar s = (ZX_OK, s, [Close (ar_openat ar)]))
   \<and> (\<not> netboot cfg \<and> ar_event ar = WATCH_EVENT_ADD_FILE \<and> 0 \<le> ar_openat ar
      \<and> \<not> is_bootpart (ar_device ar) \<and> bd_format (ar_device ar) = DISK_FORMAT_FAT
      \<and> \<not> has_efi_guid cfg (ar_device ar) \<longrightarrow>
      block_device_added cfg ar s
        = (ZX_OK, s\<lparr>fat_counter := fat_counter s + 1\<rparr>,
           [Mount (ar_openat ar) (fat_mountpath (sint (fat_counter s))) DISK_FORMAT_FAT
              \<lparr>readonly = False, wait_until_ready = False, create_mountpoint = True\<rparr>
              launch_fat (ar_mount ar)]))
   \<and> (block_device_added cfg ar s = (st, s1, tr) \<longrightarrow>
        fat_mount_paths tr = [] \<and> fat_counter s1 = fat_counter s
        \<or> fat_mount_paths tr = [fat_mountpath (sint (fat_counter s))]
          \<and> fat_counter s1 = fat_counter s + 1)
   \<and> (0 \<le> sint (fat_counter s) \<and> sint (fat_counter s) + int (length ars) < 2 ^ 31 \<longrightarrow>
        distinct (fat_mount_paths (snd (fdio_watch_directory cfg ars s)))
        \<and> sint (fat_counter s) \<le> sint (fat_counter (fst (fdio_watch_directory cfg ars s)))
        \<and> sint (fat_counter (fst (fdio_watch_directory cfg ars s)))
            \<le> sint (fat_counter s) + int (length ars))
   \<and> (int (length ars) < 2 ^ 31 \<longrightarrow>
        distinct (fat_mount_paths (snd (block_device_watcher cfg dirfd ars))))
   \<and> (bd_format (ar_device ar) = DISK_FORMAT_FAT \<and> has_efi_guid cfg (ar_device ar)
      \<and> memcmp (GUID_EFI_VALUE (guids cfg)) (GUID_INSTALL_VALUE (guids cfg)) GPT_GUID_LEN \<noteq> 0
      \<and> block_device_added cfg ar s = (st, s1, tr) \<longrightarrow>
      \<not> list_ex is_mount tr)
   \<and> (netboot cfg \<and> block_device_added cfg ar s = (st, s1, tr) \<longrightarrow>
        fat_mount_paths tr = [] \<and> fat_counter s1 = fat_counter s)
   \<and> (netboot cfg \<longrightarrow>
        fat_mount_paths (snd (fdio_watch_directory cfg ars s)) = []
        \<and> fat_counter (fst (fdio_watch_directory cfg ars s)) = fat_counter s)"
proof (intro conjI impI)
  assume a: "\<not> netboot cfg \<and> ar_event ar = WATCH_EVENT_ADD_FILE \<and> 0 \<le> ar_openat ar
      \<and> \<not> is_bootpart (ar_device ar) \<and> bd_format (ar_device ar) = DISK_FORMAT_FAT
      \<and> has_efi_guid cfg (ar_device ar)"
  then have "block_device_added cfg ar s
      = added_fat cfg ar (ar_openat ar) DISK_FORMAT_FAT s"
    by (auto simp add: block_device_added_def Let_def is_bootpart_def split: option.splits)
  then show "block_device_added cfg ar s = (ZX_OK, s, [Close (ar_openat ar)])"
    using a by (simp add: added_fat_eq)
next
  assume a: "\<not> netboot cfg \<and> ar_event ar = WATCH_EVENT_ADD_FILE \<and> 0 \<le> ar_openat ar
      \<and> \<not> is_bootpart (ar_device ar) \<and> bd_format (ar_device ar) = DISK_FORMAT_FAT
      \<and> \<not> has_efi_guid cfg (ar_device ar)"
  then have "block_device_added cfg ar s
      = added_fat cfg ar (ar_openat ar) DISK_FORMAT_FAT s"
    by (auto simp add: block_device_added_def Let_def is_bootpart_def split: option.splits)
  then show "block_device_added cfg ar s
        = (ZX_OK, s\<lparr>fat_counter := fat_counter s + 1\<rparr>,
           [Mount (ar_openat ar) (fat_mountpath (sint (fat_counter s))) DISK_FORMAT_FAT
              \<lparr>readonly = False, wait_until_ready = False, create_mountpoint = True\<rparr>
              launch_fat (ar_mount ar)])"
    using a by (simp add: added_fat_eq)
next
  assume "block_device_added cfg ar s = (st, s1, tr)"
  from block_device_added_fat_step [OF this]
  show "fat_mount_paths tr = [] \<and> fat_counter s1 = fat_counter s
        \<or> fat_mount_paths tr = [fat_mountpath (sint (fat_counter s))]
          \<and> fat_counter s1 = fat_counter s + 1"
    by blast
next
  assume a: "0 \<le> sint (fat_counter s) \<and> sint (fat_counter s) + int (length ars) < 2 ^ 31"
  note w = watch_fat [of s ars cfg "fst (fdio_watch_directory cfg ars s)"
        "snd (fdio_watch_directory cfg ars s)"]
  from a w show "distinct (fat_mount_paths (snd (fdio_watch_directory cfg ars s)))"
    by simp
  from a w
  show "sint (fat_counter s) \<le> sint (fat_counter (fst (fdio_watch_directory cfg ars s)))"
    by simp
  from a w show "sint (fat_counter (fst (fdio_watch_directory cfg ars s)))
            \<le> sint (fat_counter s) + int (length ars)"
    by simp
next
  assume "int (length ars) < 2 ^ 31"
  then show "distinct (fat_mount_paths (snd (block_device_watcher cfg dirfd ars)))"
    using watch_fat [of initial_state ars cfg "fst (fdio_watch_directory cfg ars initial_state)"
        "snd (fdio_watch_directory cfg ars initial_state)"]
    by (cases "fdio_watch_directory cfg ars initial_state")
      (simp add: block_device_watcher_def initial_state_def)
next
  assume a: "bd_format (ar_device ar) = DISK_FORMAT_FAT \<and> has_efi_guid cfg (ar_device ar)
      \<and> memcmp (GUID_EFI_VALUE (guids cfg)) (GUID_INSTALL_VALUE (guids cfg)) GPT_GUID_LEN \<noteq> 0
      \<and> block_device_added cfg ar s = (st, s1, tr)"
  then have g: "memcmp (handler_guid (ar_device ar)) (GUID_INSTALL_VALUE (guids cfg))
      GPT_GUID_LEN \<noteq> 0"
    using efi_device_guid by blast
  from a g show "\<not> list_ex is_mount tr"
    by (auto simp add: block_device_added_def Let_def added_fat_eq handler_guid_def
        split: if_splits option.splits)
next
  assume a: "netboot cfg \<and> block_device_added cfg ar s = (st, s1, tr)"
  then have "block_device_added cfg ar s = (st, s1, tr)" by simp
  from block_device_added_fat_step [OF this] a
  show "fat_mount_paths tr = []" "fat_counter s1 = fat_counter s"
    by auto
next
  assume "netboot cfg"
  from watch_netboot_no_fat [OF this, of ars s]
  show "fat_mount_paths (snd (fdio_watch_directory cfg ars s)) = []"
    "fat_counter (fst (fdio_watch_directory cfg ars s)) = fat_counter s"
    by simp_all
qed

theorem fat_volumes_witness:
  "block_device_added plain_host fat_arrival initial_state
     = (ZX_OK, initial_state\<lparr>fat_counter := 1\<rparr>,
        [Mount 3 ''/fs/volume/fat-0'' DISK_FORMAT_FAT
           \<lparr>readonly = False, wait_until_ready = False, create_mountpoint = True\<rparr>
           launch_fat ZX_OK])
   \<and> block_device_added plain_host fat_arrival (initial_state\<lparr>fat_counter := 2147483647\<rparr>)
     = (ZX_OK, initial_state\<lparr>fat_counter := - 2147483648\<rparr>,
        [Mount 3 ''/fs/volume/fat-2147483647'' DISK_FORMAT_FAT
           \<lparr>readonly = False, wait_until_ready = False, create_mountpoint = True\<rparr>
           launch_fat ZX_OK])
   \<and> sint (- 2147483648 :: 32 word) = - 2147483648
   \<and> has_efi_guid plain_host (ar_device efi_fat_arrival)
   \<and> block_device_added plain_host efi_fat_arrival initial_state
     = (ZX_OK, initial_state, [Close 3])
   \<and> fat_mount_paths (snd (block_device_watcher plain_host 5
        [fat_arrival, efi_fat_arrival, second_fat_arrival]))
     = [''/fs/volume/fat-0'', ''/fs/volume/fat-1'']
   \<and> distinct (fat_mount_paths (snd (block_device_watcher plain_host 5
        [fat_arrival, efi_fat_arrival, second_fat_arrival])))
   \<and> distinct (fat_mount_paths (snd (fdio_watch_directory plain_host
        [fat_arrival, second_fat_arrival] (initial_state\<lparr>fat_counter := 7\<rparr>))))
   \<and> sint (fat_counter (initial_state\<lparr>fat_counter := 7\<rparr>))
       \<le> sint (fat_counter (fst (fdio_watch_directory plain_host
            [fat_arrival, second_fat_arrival] (initial_state\<lparr>fat_counter := 7\<rparr>))))
   \<and> \<not> list_ex is_mount
        (snd (snd (block_device_added netboot_host efi_fat_arrival initial_state)))
   \<and> netboot netboot_host
   \<and> bd_format (ar_device install_fat_arrival) = DISK_FORMAT_FAT
   \<and> list_ex is_mount
        (snd (snd (block_device_added netboot_host install_fat_arrival initial_state)))
   \<and> fat_mount_paths
        (snd (snd (block_device_added netboot_host install_fat_arrival initial_state))) = []
   \<and> fat_mount_paths (snd (fdio_watch_directory netboot_host
        [fat_arrival, install_fat_arrival, second_fat_arrival] initial_state)) = []"
proof -
  have h: "\<not> netboot plain_host" "netboot netboot_host"
    by (simp_all add: plain_host_def netboot_host_def)
  have d1: "ar_event fat_arrival = WATCH_EVENT_ADD_FILE" "ar_openat fat_arrival = 3"
    "\<not> is_bootpart (ar_device fat_arrival)"
    "bd_format (ar_device fat_arrival) = DISK_FORMAT_FAT"
    "\<not> has_efi_guid plain_host (ar_device fat_arrival)" "ar_mount fat_arrival = ZX_OK"
    by (simp_all add: fat_arrival_def calm_arrival_def plain_device_def is_bootpart_def
        has_efi_guid_def)
  have d2: "ar_event efi_fat_arrival = WATCH_EVENT_ADD_FILE" "ar_openat efi_fat_arrival = 3"
    "\<not> is_bootpart (ar_device efi_fat_arrival)"
    "bd_format (ar_device efi_fat_arrival) = DISK_FORMAT_FAT"
    "has_efi_guid plain_host (ar_device efi_fat_arrival)"
    by (simp_all add: efi_fat_arrival_def calm_arrival_def is_bootpart_def
        has_efi_guid_def plain_host_def example_guids_def memcmp_def)
  have ch: "char_of (48 :: nat) = CHR ''0''" "char_of (49 :: nat) = CHR ''1''"
    "char_of (50 :: nat) = CHR ''2''" "char_of (51 :: nat) = CHR ''3''"
    "char_of (52 :: nat) = CHR ''4''" "char_of (54 :: nat) = CHR ''6''"
    "char_of (55 :: nat) = CHR ''7''" "char_of (56 :: nat) = CHR ''8''"
    by code_simp+
  have d0: "digits10 0 = ''0''" "digits10 1 = ''1''" "digits10 (Suc 0) = ''1''"
    "digits10 2147483647 = ''2147483647''"
    by (simp_all add: digits10.simps ch)
  have p: "fat_mountpath 0 = ''/fs/volume/fat-0''" "fat_mountpath 1 = ''/fs/volume/fat-1''"
    "fat_mountpath 2147483647 = ''/fs/volume/fat-2147483647''"
    by (simp_all add: fat_mountpath_plain d0)
  have c: "fat_counter initial_state = 0" "sint (0 :: 32 word) = 0"
    "sint (2147483647 :: 32 word) = 2147483647"
    "(2147483647 :: 32 word) + 1 = - 2147483648"
    "sint (- 2147483648 :: 32 word) = - 2147483648"
    "sint (7 :: 32 word) = 7"
    by (simp_all add: initial_state_def)
  have l: "int (length [fat_arrival, efi_fat_arrival, second_fat_arrival]) < 2 ^ 31"
    by simp
  have t1: "block_device_added plain_host fat_arrival initial_state
     = (ZX_OK, initial_state\<lparr>fat_counter := 1\<rparr>,
        [Mount 3 ''/fs/volume/fat-0'' DISK_FORMAT_FAT
           \<lparr>readonly = False, wait_until_ready = False, create_mountpoint = True\<rparr>
           launch_fat ZX_OK])"
    using fat_volumes [where cfg = plain_host and ar = fat_arrival and s = initial_state]
      h d1 p c by simp
  have t1m: "block_device_added plain_host fat_arrival
        (initial_state\<lparr>fat_counter := 2147483647\<rparr>)
     = (ZX_OK, initial_state\<lparr>fat_counter := - 2147483648\<rparr>,
        [Mount 3 ''/fs/volume/fat-2147483647'' DISK_FORMAT_FAT
           \<lparr>readonly = False, wait_until_ready = False, create_mountpoint = True\<rparr>
           launch_fat ZX_OK])"
    using fat_volumes [where cfg = plain_host and ar = fat_arrival
        and s = "initial_state\<lparr>fat_counter := 2147483647\<rparr>"]
      h d1 p c by simp
  have t2: "block_device_added plain_host efi_fat_arrival initial_state
     = (ZX_OK, initial_state, [Close 3])"
    using fat_volumes [where cfg = plain_host and ar = efi_fat_arrival and s = initial_state]
      h d2 by simp
  have t3: "distinct (fat_mount_paths (snd (block_device_watcher plain_host 5
        [fat_arrival, efi_fat_arrival, second_fat_arrival])))"
    using fat_volumes [where cfg = plain_host and dirfd = 5
        and ars = "[fat_arrival, efi_fat_arrival, second_fat_arrival]"] l
    by blast
  have t4: "fat_mount_paths (snd (block_device_watcher plain_host 5
        [fat_arrival, efi_fat_arrival, second_fat_arrival]))
     = [''/fs/volume/fat-0'', ''/fs/volume/fat-1'']"
    by (simp add: block_device_watcher_def handler_defs path_defs example_guids_def
        plain_device_def calm_arrival_def plain_host_def fat_arrival_def
        initial_state_def second_fat_arrival_def efi_fat_arrival_def snprintf_def
        printf_d_def FDIO_MAX_FILENAME_def d0)
  have b7: "0 \<le> sint (fat_counter (initial_state\<lparr>fat_counter := 7\<rparr>))
      \<and> sint (fat_counter (initial_state\<lparr>fat_counter := 7\<rparr>))
          + int (length [fat_arrival, second_fat_arrival]) < 2 ^ 31"
    using c(6) by simp
  note f7 = fat_volumes [where cfg = plain_host and ars = "[fat_arrival, second_fat_arrival]"
        and s = "initial_state\<lparr>fat_counter := 7\<rparr>"]
  have t5: "distinct (fat_mount_paths (snd (fdio_watch_directory plain_host
        [fat_arrival, second_fat_arrival] (initial_state\<lparr>fat_counter := 7\<rparr>))))"
    using f7 b7 by blast
  have t5m: "sint (fat_counter (initial_state\<lparr>fat_counter := 7\<rparr>))
       \<le> sint (fat_counter (fst (fdio_watch_directory plain_host
            [fat_arrival, second_fat_arrival] (initial_state\<lparr>fat_counter := 7\<rparr>))))"
    using f7 b7 by blast
  define q where "q = block_device_added netboot_host efi_fat_arrival initial_state"
  have resq: "block_device_added netboot_host efi_fat_arrival initial_state
      = (fst q, fst (snd q), snd (snd q))"
    by (simp add: q_def)
  have e: "has_efi_guid netboot_host (ar_device efi_fat_arrival)"
    "memcmp (GUID_EFI_VALUE (guids netboot_host)) (GUID_INSTALL_VALUE (guids netboot_host))
       GPT_GUID_LEN \<noteq> 0"
    by (simp_all add: efi_fat_arrival_def has_efi_guid_def netboot_host_def
        example_guids_def memcmp_def GPT_GUID_LEN_def)
  have t6: "\<not> list_ex is_mount (snd (snd q))"
    using fat_volumes [where cfg = netboot_host and ar = efi_fat_arrival
        and s = initial_state and st = "fst q" and ?s1.0 = "fst (snd q)"
        and tr = "snd (snd q)"] resq e d2(4)
    by blast
  define u where "u = block_device_added netboot_host install_fat_arrival initial_state"
  have resu: "block_device_added netboot_host install_fat_arrival initial_state
      = (fst u, fst (snd u), snd (snd u))"
    by (simp add: u_def)
  have t7: "fat_mount_paths (snd (snd u)) = []"
    using fat_volumes [where cfg = netboot_host and ar = install_fat_arrival
        and s = initial_state and st = "fst u" and ?s1.0 = "fst (snd u)"
        and tr = "snd (snd u)"] resu h(2)
    by blast
  have t7m: "list_ex is_mount (snd (snd u))"
    "bd_format (ar_device install_fat_arrival) = DISK_FORMAT_FAT"
    by (simp_all add: u_def handler_defs path_defs example_guids_def calm_arrival_def
        netboot_host_def install_fat_arrival_def initial_state_def)
  have t8: "fat_mount_paths (snd (fdio_watch_directory netboot_host
        [fat_arrival, install_fat_arrival, second_fat_arrival] initial_state)) = []"
    using fat_volumes [where cfg = netboot_host and s = initial_state
        and ars = "[fat_arrival, install_fat_arrival, second_fat_arrival]"] h(2)
    by blast
  show ?thesis
    using t1 t1m t2 t3 t4 t5 t5m t6 t7 t7m t8 d2(5) c(5) h(2) unfolding q_def u_def
    by blast
qed

end
